theory Spec2Isabelle
  imports Main "HOL-Library.Char_ord" "HOL-Library.List_Lexorder"
begin

section \<open>Python strings and regular expressions\<close>

text \<open>
  A Python \<open>str\<close> is modelled as a \<open>string\<close>: the character with code \<open>n\<close> is the code point
  \<open>n\<close>, so the strings covered are those of code points below 256. On these code points
  \<open>str.lower\<close> changes the letters A to Z and the capital letters 0xC0 to 0xDE other than
  the multiplication sign 0xD7, each to the code point 32 above it. \<open>str.isspace\<close>,
  \<open>str.strip\<close> without argument and the class of white space of \<open>re\<close> agree on the white
  space: the code points 9 to 13, 0x1C to 0x1F, the space, 0x85 and 0xA0.
\<close>

definition lower_char :: "char \<Rightarrow> char" where
  "lower_char c =
     (let n = (of_char c :: nat)
      in if (65 \<le> n \<and> n \<le> 90) \<or> (192 \<le> n \<and> n \<le> 222 \<and> n \<noteq> 215) then char_of (n + 32) else c)"

definition lower :: "string \<Rightarrow> string" where
  "lower s = map lower_char s"

definition isspace :: "char \<Rightarrow> bool" where
  "isspace c =
     (let n = (of_char c :: nat)
      in (9 \<le> n \<and> n \<le> 13) \<or> (28 \<le> n \<and> n \<le> 32) \<or> n = 133 \<or> n = 160)"

definition strip :: "string \<Rightarrow> string" where
  "strip s = rev (dropWhile isspace (rev (dropWhile isspace s)))"

text \<open>\<open>x.startswith(q)\<close> and the substring test \<open>q in x\<close>.\<close>

fun startswith :: "string \<Rightarrow> string \<Rightarrow> bool" where
  "startswith x [] = True"
| "startswith [] (c # q) = False"
| "startswith (d # x) (c # q) = (d = c \<and> startswith x q)"

fun str_in :: "string \<Rightarrow> string \<Rightarrow> bool" where
  "str_in q [] = (q = [])"
| "str_in q (d # x) = (startswith (d # x) q \<or> str_in q x)"

text \<open>\<open>sep.join(xs)\<close>.\<close>

fun join :: "string \<Rightarrow> string list \<Rightarrow> string" where
  "join sep [] = []"
| "join sep [x] = x"
| "join sep (x # y # ys) = x @ sep @ join sep (y # ys)"

text \<open>
  Regular expressions with character classes, matched by derivatives. \<open>re_match\<close> is
  \<open>re.match\<close> for a pattern written between \<open>^\<close> and \<open>$\<close>: without the MULTILINE flag, \<open>$\<close>
  matches at the end of the string and also just before a newline that ends the string.
\<close>

datatype rexp =
    Zero
  | One
  | Class "char \<Rightarrow> bool"
  | Alt rexp rexp
  | Seq rexp rexp
  | Star rexp

fun nullable :: "rexp \<Rightarrow> bool" where
  "nullable Zero = False"
| "nullable One = True"
| "nullable (Class P) = False"
| "nullable (Alt r s) = (nullable r \<or> nullable s)"
| "nullable (Seq r s) = (nullable r \<and> nullable s)"
| "nullable (Star r) = True"

fun deriv :: "char \<Rightarrow> rexp \<Rightarrow> rexp" where
  "deriv c Zero = Zero"
| "deriv c One = Zero"
| "deriv c (Class P) = (if P c then One else Zero)"
| "deriv c (Alt r s) = Alt (deriv c r) (deriv c s)"
| "deriv c (Seq r s) =
     (if nullable r then Alt (Seq (deriv c r) s) (deriv c s) else Seq (deriv c r) s)"
| "deriv c (Star r) = Seq (deriv c r) (Star r)"

fun matches :: "rexp \<Rightarrow> string \<Rightarrow> bool" where
  "matches r [] = nullable r"
| "matches r (c # cs) = matches (deriv c r) cs"

definition Plus :: "rexp \<Rightarrow> rexp" where
  "Plus r = Seq r (Star r)"

definition newline :: char where
  "newline = CHR 0x0A"

definition re_match :: "rexp \<Rightarrow> string \<Rightarrow> bool" where
  "re_match r s = (matches r s \<or> (s \<noteq> [] \<and> last s = newline \<and> matches r (butlast s)))"

definition is_letter :: "char \<Rightarrow> bool" where
  "is_letter c = (let n = (of_char c :: nat) in (65 \<le> n \<and> n \<le> 90) \<or> (97 \<le> n \<and> n \<le> 122))"

definition is_digit :: "char \<Rightarrow> bool" where
  "is_digit c = (let n = (of_char c :: nat) in 48 \<le> n \<and> n \<le> 57)"

text \<open>
  The constructors of both modules receive Python values whose dynamic type they test or
  convert: \<open>None\<close>, an \<open>int\<close>, a \<open>float\<close> or a \<open>str\<close>. A \<open>bool\<close> is an \<open>int\<close> in Python and is
  read as the integer 0 or 1. A finite \<open>float\<close> is a mantissa and a binary exponent,
  \<open>Finite m e\<close> being the number \<open>m * 2 ^ e\<close>; the other floats are the two infinities and
  the value that is not a number.
\<close>

datatype pyfloat = Finite int int | PosInf | NegInf | NaN

datatype pyval = NoneVal | IntVal int | FloatVal pyfloat | StrVal string

text \<open>
  The exceptions the constructors raise, and the two operations they apply to a float:
  \<open>x < 0\<close>, which is false for the value that is not a number, and \<open>int(x)\<close>, which cuts the
  fraction off towards zero, raises \<open>ValueError\<close> for the value that is not a number and
  \<open>OverflowError\<close> for an infinity.
\<close>

datatype error = ValueError | TypeError | OverflowError

definition float_lt_zero :: "pyfloat \<Rightarrow> bool" where
  "float_lt_zero x =
     (case x of Finite m e \<Rightarrow> m < 0 | PosInf \<Rightarrow> False | NegInf \<Rightarrow> True | NaN \<Rightarrow> False)"

definition float_int :: "pyfloat \<Rightarrow> error + int" where
  "float_int x =
     (case x of
        Finite m e \<Rightarrow>
          Inr (if 0 \<le> e then m * 2 ^ nat e
               else if 0 \<le> m then m div 2 ^ nat (- e)
               else - ((- m) div 2 ^ nat (- e)))
      | NaN \<Rightarrow> Inl ValueError
      | _ \<Rightarrow> Inl OverflowError)"

section \<open>The model layer of \<open>tkinter_implementation/school.py\<close>\<close>

text \<open>
  Entities are Python objects compared by identity (no class defines \<open>__eq__\<close>), so the model
  keeps them in a heap: a reference is a natural number, and each class has its own map
  from references to objects. Lists of objects are lists of references; \<open>x in xs\<close> is
  membership of the reference and \<open>xs.remove(x)\<close> removes its first occurrence.
\<close>

type_synonym ref = nat

text \<open>\<open>_email_re = re.compile(r"^[^@\s]+@[^@\s]+\.[^@\s]+$")\<close>\<close>

definition not_at_space :: "char \<Rightarrow> bool" where
  "not_at_space c = (c \<noteq> CHR ''@'' \<and> \<not> isspace c)"

definition email_re :: rexp where
  "email_re =
     Seq (Plus (Class not_at_space))
       (Seq (Class (\<lambda>c. c = CHR ''@''))
         (Seq (Plus (Class not_at_space))
           (Seq (Class (\<lambda>c. c = CHR ''.'')) (Plus (Class not_at_space)))))"

record Student =
  name :: string
  age :: int
  email :: string
  studentid :: string
  courses :: "ref list"

record Instructor =
  name :: string
  age :: int
  email :: string
  instructorid :: string
  courses :: "ref list"

record Course =
  courseid :: string
  coursename :: string
  instructor :: "ref option"
  students :: "ref list"

text \<open>
  \<open>Person.__init__\<close>: the three checks in the order of the source, then the conversion
  \<open>int(age)\<close>. The name, the email and the id have the annotated type \<open>str\<close>; the age is any
  of the Python values above, and \<open>age < 0\<close> raises \<open>TypeError\<close> for a string. An empty
  email skips the pattern.
\<close>

definition Person_init :: "string \<Rightarrow> pyval \<Rightarrow> string \<Rightarrow> error + (string \<times> int \<times> string)" where
  "Person_init nm ag em =
     (if nm = [] then Inl ValueError
      else case ag of
             NoneVal \<Rightarrow> Inl ValueError
           | StrVal s \<Rightarrow> Inl TypeError
           | IntVal a \<Rightarrow>
               if a < 0 then Inl ValueError
               else if em \<noteq> [] \<and> \<not> re_match email_re em then Inl ValueError
               else Inr (nm, a, em)
           | FloatVal x \<Rightarrow>
               if float_lt_zero x then Inl ValueError
               else if em \<noteq> [] \<and> \<not> re_match email_re em then Inl ValueError
               else (case float_int x of Inl err \<Rightarrow> Inl err | Inr a \<Rightarrow> Inr (nm, a, em)))"

definition Student_init :: "string \<Rightarrow> pyval \<Rightarrow> string \<Rightarrow> string \<Rightarrow> error + Student" where
  "Student_init nm ag em sid =
     (case Person_init nm ag em of
        Inl e \<Rightarrow> Inl e
      | Inr (n, a, e) \<Rightarrow>
          if sid = [] then Inl ValueError
          else Inr \<lparr>Student.name = n, age = a, email = e, studentid = sid, courses = []\<rparr>)"

definition Instructor_init :: "string \<Rightarrow> pyval \<Rightarrow> string \<Rightarrow> string \<Rightarrow> error + Instructor" where
  "Instructor_init nm ag em iid =
     (case Person_init nm ag em of
        Inl e \<Rightarrow> Inl e
      | Inr (n, a, e) \<Rightarrow>
          if iid = [] then Inl ValueError
          else Inr \<lparr>Instructor.name = n, age = a, email = e, instructorid = iid, courses = []\<rparr>)"

definition Course_init :: "string \<Rightarrow> string \<Rightarrow> ref option \<Rightarrow> error + Course" where
  "Course_init cid cname inst =
     (if cid = [] then Inl ValueError
      else if cname = [] then Inl ValueError
      else Inr \<lparr>courseid = cid, coursename = cname, instructor = inst, students = []\<rparr>)"

record SchoolSystem =
  students :: "ref list"
  instructors :: "ref list"
  courses :: "ref list"

text \<open>The heap of entity objects together with the one \<open>SchoolSystem\<close> object.\<close>

record world =
  student_at :: "ref \<Rightarrow> Student"
  instructor_at :: "ref \<Rightarrow> Instructor"
  course_at :: "ref \<Rightarrow> Course"
  system :: SchoolSystem

text \<open>\<open>Student.enroll\<close>, \<open>Instructor.take\<close>, \<open>Course.addstudent\<close>: append unless already linked.\<close>

definition Student_enroll :: "world \<Rightarrow> ref \<Rightarrow> ref \<Rightarrow> world" where
  "Student_enroll w s c =
     (if c \<notin> set (Student.courses (student_at w s))
      then w\<lparr>student_at := (student_at w)
             (s := (student_at w s)\<lparr>Student.courses := Student.courses (student_at w s) @ [c]\<rparr>)\<rparr>
      else w)"

definition Instructor_take :: "world \<Rightarrow> ref \<Rightarrow> ref \<Rightarrow> world" where
  "Instructor_take w i c =
     (if c \<notin> set (Instructor.courses (instructor_at w i))
      then w\<lparr>instructor_at := (instructor_at w)
             (i := (instructor_at w i)\<lparr>Instructor.courses := Instructor.courses (instructor_at w i) @ [c]\<rparr>)\<rparr>
      else w)"

definition Course_addstudent :: "world \<Rightarrow> ref \<Rightarrow> ref \<Rightarrow> world" where
  "Course_addstudent w c s =
     (if s \<notin> set (Course.students (course_at w c))
      then w\<lparr>course_at := (course_at w)
             (c := (course_at w c)\<lparr>Course.students := Course.students (course_at w c) @ [s]\<rparr>)\<rparr>
      else w)"

text \<open>\<open>findstudent\<close>, \<open>findinstructor\<close>, \<open>findcourse\<close>: the first object with the id, or \<open>None\<close>.\<close>

definition findstudent :: "world \<Rightarrow> string \<Rightarrow> ref option" where
  "findstudent w sid = find (\<lambda>s. studentid (student_at w s) = sid) (SchoolSystem.students (system w))"

definition findinstructor :: "world \<Rightarrow> string \<Rightarrow> ref option" where
  "findinstructor w iid =
     find (\<lambda>i. instructorid (instructor_at w i) = iid) (SchoolSystem.instructors (system w))"

definition findcourse :: "world \<Rightarrow> string \<Rightarrow> ref option" where
  "findcourse w cid = find (\<lambda>c. courseid (course_at w c) = cid) (SchoolSystem.courses (system w))"

text \<open>\<open>addstudent\<close>, \<open>addinstructor\<close>, \<open>addcourse\<close>: the argument is an object already built.\<close>

definition addstudent :: "world \<Rightarrow> ref \<Rightarrow> bool \<times> world" where
  "addstudent w s =
     (if findstudent w (studentid (student_at w s)) \<noteq> None then (False, w)
      else (True, w\<lparr>system := (system w)
              \<lparr>SchoolSystem.students := SchoolSystem.students (system w) @ [s]\<rparr>\<rparr>))"

definition addinstructor :: "world \<Rightarrow> ref \<Rightarrow> bool \<times> world" where
  "addinstructor w i =
     (if findinstructor w (instructorid (instructor_at w i)) \<noteq> None then (False, w)
      else (True, w\<lparr>system := (system w)
              \<lparr>SchoolSystem.instructors := SchoolSystem.instructors (system w) @ [i]\<rparr>\<rparr>))"

definition addcourse :: "world \<Rightarrow> ref \<Rightarrow> bool \<times> world" where
  "addcourse w c =
     (if findcourse w (courseid (course_at w c)) \<noteq> None then (False, w)
      else (True, w\<lparr>system := (system w)
              \<lparr>SchoolSystem.courses := SchoolSystem.courses (system w) @ [c]\<rparr>\<rparr>))"

text \<open>The \<open>for\<close> statements of the three \<open>remove\<close> operations, one step per object visited.\<close>

definition drop_student :: "ref \<Rightarrow> world \<Rightarrow> ref \<Rightarrow> world" where
  "drop_student s w c =
     (if s \<in> set (Course.students (course_at w c))
      then w\<lparr>course_at := (course_at w)
             (c := (course_at w c)\<lparr>Course.students := remove1 s (Course.students (course_at w c))\<rparr>)\<rparr>
      else w)"

definition removestudent :: "world \<Rightarrow> string \<Rightarrow> bool \<times> world" where
  "removestudent w sid =
     (case findstudent w sid of
        None \<Rightarrow> (False, w)
      | Some s \<Rightarrow>
          (let w1 = foldl (drop_student s) w (SchoolSystem.courses (system w))
           in (True, w1\<lparr>system := (system w1)
                 \<lparr>SchoolSystem.students := remove1 s (SchoolSystem.students (system w1))\<rparr>\<rparr>)))"

definition clear_instructor :: "ref \<Rightarrow> world \<Rightarrow> ref \<Rightarrow> world" where
  "clear_instructor i w c =
     (if instructor (course_at w c) = Some i
      then w\<lparr>course_at := (course_at w)(c := (course_at w c)\<lparr>instructor := None\<rparr>)\<rparr>
      else w)"

definition removeinstructor :: "world \<Rightarrow> string \<Rightarrow> bool \<times> world" where
  "removeinstructor w iid =
     (case findinstructor w iid of
        None \<Rightarrow> (False, w)
      | Some i \<Rightarrow>
          (let w1 = foldl (clear_instructor i) w (SchoolSystem.courses (system w))
           in (True, w1\<lparr>system := (system w1)
                 \<lparr>SchoolSystem.instructors := remove1 i (SchoolSystem.instructors (system w1))\<rparr>\<rparr>)))"

definition drop_course :: "ref \<Rightarrow> world \<Rightarrow> ref \<Rightarrow> world" where
  "drop_course c w s =
     (if c \<in> set (Student.courses (student_at w s))
      then w\<lparr>student_at := (student_at w)
             (s := (student_at w s)\<lparr>Student.courses := remove1 c (Student.courses (student_at w s))\<rparr>)\<rparr>
      else w)"

definition detach_instructor :: "ref \<Rightarrow> world \<Rightarrow> world" where
  "detach_instructor c w =
     (case instructor (course_at w c) of
        None \<Rightarrow> w
      | Some i \<Rightarrow>
          if c \<in> set (Instructor.courses (instructor_at w i))
          then w\<lparr>instructor_at := (instructor_at w)
                 (i := (instructor_at w i)
                    \<lparr>Instructor.courses := remove1 c (Instructor.courses (instructor_at w i))\<rparr>)\<rparr>
          else w)"

definition removecourse :: "world \<Rightarrow> string \<Rightarrow> bool \<times> world" where
  "removecourse w cid =
     (case findcourse w cid of
        None \<Rightarrow> (False, w)
      | Some c \<Rightarrow>
          (let w1 = foldl (drop_course c) w (SchoolSystem.students (system w));
               w2 = detach_instructor c w1
           in (True, w2\<lparr>system := (system w2)
                 \<lparr>SchoolSystem.courses := remove1 c (SchoolSystem.courses (system w2))\<rparr>\<rparr>)))"

text \<open>\<open>assign\<close> and \<open>register\<close>.\<close>

definition assign :: "world \<Rightarrow> string \<Rightarrow> string \<Rightarrow> bool \<times> world" where
  "assign w iid cid =
     (case (findinstructor w iid, findcourse w cid) of
        (Some i, Some c) \<Rightarrow>
          if instructor (course_at w c) = Some i then (False, w)
          else (True, Instructor_take
                  (w\<lparr>course_at := (course_at w)(c := (course_at w c)\<lparr>instructor := Some i\<rparr>)\<rparr>) i c)
      | _ \<Rightarrow> (False, w))"

definition register :: "world \<Rightarrow> string \<Rightarrow> string \<Rightarrow> bool \<times> world" where
  "register w sid cid =
     (case (findstudent w sid, findcourse w cid) of
        (Some s, Some c) \<Rightarrow>
          if s \<in> set (Course.students (course_at w c)) then (False, w)
          else (True, Student_enroll (Course_addstudent w c s) s c)
      | _ \<Rightarrow> (False, w))"

text \<open>
  \<open>search\<close>: the query is \<open>(q or "").strip().lower()\<close>; a row is appended for each object one
  of whose listed fields, lower-cased, contains it. For a course the listed fields are the
  course name, the course id and \<open>inst_name\<close>, the instructor's name or the text \<open>None\<close>.
\<close>

type_synonym result_row = "string \<times> string \<times> string \<times> string"

definition query :: "string option \<Rightarrow> string" where
  "query q = lower (strip (case q of None \<Rightarrow> [] | Some s \<Rightarrow> s))"

definition any_contains :: "string \<Rightarrow> string list \<Rightarrow> bool" where
  "any_contains q xs = (\<exists>x \<in> set xs. str_in q (lower x))"

definition student_fields :: "world \<Rightarrow> ref \<Rightarrow> string list" where
  "student_fields w s =
     [Student.name (student_at w s), Student.email (student_at w s), studentid (student_at w s)]"

definition student_result :: "world \<Rightarrow> ref \<Rightarrow> result_row" where
  "student_result w s =
     (''Student'', Student.name (student_at w s), studentid (student_at w s),
      join '', '' (map (\<lambda>c. coursename (course_at w c)) (Student.courses (student_at w s))))"

definition instructor_fields :: "world \<Rightarrow> ref \<Rightarrow> string list" where
  "instructor_fields w i =
     [Instructor.name (instructor_at w i), Instructor.email (instructor_at w i),
      instructorid (instructor_at w i)]"

definition instructor_result :: "world \<Rightarrow> ref \<Rightarrow> result_row" where
  "instructor_result w i =
     (''Instructor'', Instructor.name (instructor_at w i), instructorid (instructor_at w i),
      join '', '' (map (\<lambda>c. coursename (course_at w c)) (Instructor.courses (instructor_at w i))))"

definition inst_name :: "world \<Rightarrow> ref \<Rightarrow> string" where
  "inst_name w c =
     (case instructor (course_at w c) of
        None \<Rightarrow> ''None''
      | Some i \<Rightarrow> Instructor.name (instructor_at w i))"

definition course_fields :: "world \<Rightarrow> ref \<Rightarrow> string list" where
  "course_fields w c = [coursename (course_at w c), courseid (course_at w c), inst_name w c]"

definition course_result :: "world \<Rightarrow> ref \<Rightarrow> result_row" where
  "course_result w c =
     (''Course'', coursename (course_at w c), courseid (course_at w c),
      ''Instructor: '' @ inst_name w c @ ''; Students: '' @
      join '', '' (map (\<lambda>s. Student.name (student_at w s)) (Course.students (course_at w c))))"

definition search :: "world \<Rightarrow> string option \<Rightarrow> result_row list" where
  "search w q =
     map (student_result w)
       (filter (\<lambda>s. any_contains (query q) (student_fields w s)) (SchoolSystem.students (system w))) @
     map (instructor_result w)
       (filter (\<lambda>i. any_contains (query q) (instructor_fields w i))
          (SchoolSystem.instructors (system w))) @
     map (course_result w)
       (filter (\<lambda>c. any_contains (query q) (course_fields w c)) (SchoolSystem.courses (system w)))"

section \<open>The model layer of \<open>Lab2_AbdelRahmanElKouche/documented proj/school_management.py\<close>\<close>

text \<open>
  The validators of this module test the dynamic type of their argument with
  \<open>isinstance\<close>, so every argument of the constructors is a Python value.
\<close>

definition validate_name :: "pyval \<Rightarrow> bool" where
  "validate_name v = (case v of StrVal s \<Rightarrow> length (strip s) > 0 | _ \<Rightarrow> False)"

definition validate_age :: "pyval \<Rightarrow> bool" where
  "validate_age v = (case v of IntVal a \<Rightarrow> a \<ge> 0 | _ \<Rightarrow> False)"

text \<open>\<open>pattern = r'^[a-zA-Z0-9._%+-]+@[a-zA-Z0-9.-]+\.[a-zA-Z]{2,}$'\<close>\<close>

definition local_char :: "char \<Rightarrow> bool" where
  "local_char c = (is_letter c \<or> is_digit c \<or> c \<in> set ''._%+-'')"

definition domain_char :: "char \<Rightarrow> bool" where
  "domain_char c = (is_letter c \<or> is_digit c \<or> c \<in> set ''.-'')"

definition pattern :: rexp where
  "pattern =
     Seq (Plus (Class local_char))
       (Seq (Class (\<lambda>c. c = CHR ''@''))
         (Seq (Plus (Class domain_char))
           (Seq (Class (\<lambda>c. c = CHR ''.''))
             (Seq (Class is_letter) (Seq (Class is_letter) (Star (Class is_letter)))))))"

definition validate_email :: "pyval \<Rightarrow> bool" where
  "validate_email v = (case v of StrVal s \<Rightarrow> re_match pattern s | _ \<Rightarrow> False)"

definition validate_student_id :: "pyval \<Rightarrow> bool" where
  "validate_student_id v = (case v of StrVal s \<Rightarrow> length (strip s) > 0 | _ \<Rightarrow> False)"

definition validate_instructor_id :: "pyval \<Rightarrow> bool" where
  "validate_instructor_id v = (case v of StrVal s \<Rightarrow> length (strip s) > 0 | _ \<Rightarrow> False)"

definition validate_course_id :: "pyval \<Rightarrow> bool" where
  "validate_course_id v = (case v of StrVal s \<Rightarrow> length (strip s) > 0 | _ \<Rightarrow> False)"

definition validate_course_name :: "pyval \<Rightarrow> bool" where
  "validate_course_name v = (case v of StrVal s \<Rightarrow> length (strip s) > 0 | _ \<Rightarrow> False)"

definition str_of :: "pyval \<Rightarrow> string" where
  "str_of v = (case v of StrVal s \<Rightarrow> s | _ \<Rightarrow> [])"

definition int_of :: "pyval \<Rightarrow> int" where
  "int_of v = (case v of IntVal a \<Rightarrow> a | _ \<Rightarrow> 0)"

record SM_Student =
  name :: string
  age :: int
  email :: string
  student_id :: string
  registered_courses :: "ref list"

record SM_Instructor =
  name :: string
  age :: int
  email :: string
  instructor_id :: string
  assigned_courses :: "ref list"

record SM_Course =
  course_id :: string
  course_name :: string
  instructor :: "ref option"
  enrolled_students :: "ref list"

text \<open>
  The constructors. A field is read with \<open>str_of\<close> or \<open>int_of\<close> only after its validator has
  accepted the argument, so the stored value is the argument itself.
\<close>

definition SM_Person_init :: "pyval \<Rightarrow> pyval \<Rightarrow> pyval \<Rightarrow> error + (string \<times> int \<times> string)" where
  "SM_Person_init nm ag em =
     (if \<not> validate_name nm then Inl ValueError
      else if \<not> validate_age ag then Inl ValueError
      else if \<not> validate_email em then Inl ValueError
      else Inr (str_of nm, int_of ag, str_of em))"

definition SM_Student_init :: "pyval \<Rightarrow> pyval \<Rightarrow> pyval \<Rightarrow> pyval \<Rightarrow> error + SM_Student" where
  "SM_Student_init nm ag em sid =
     (case SM_Person_init nm ag em of
        Inl e \<Rightarrow> Inl e
      | Inr (n, a, e) \<Rightarrow>
          if \<not> validate_student_id sid then Inl ValueError
          else Inr \<lparr>SM_Student.name = n, age = a, email = e, student_id = str_of sid,
                    registered_courses = []\<rparr>)"

definition SM_Instructor_init :: "pyval \<Rightarrow> pyval \<Rightarrow> pyval \<Rightarrow> pyval \<Rightarrow> error + SM_Instructor" where
  "SM_Instructor_init nm ag em iid =
     (case SM_Person_init nm ag em of
        Inl e \<Rightarrow> Inl e
      | Inr (n, a, e) \<Rightarrow>
          if \<not> validate_instructor_id iid then Inl ValueError
          else Inr \<lparr>SM_Instructor.name = n, age = a, email = e, instructor_id = str_of iid,
                    assigned_courses = []\<rparr>)"

definition SM_Course_init :: "pyval \<Rightarrow> pyval \<Rightarrow> ref option \<Rightarrow> error + SM_Course" where
  "SM_Course_init cid cname inst =
     (if \<not> validate_course_id cid then Inl ValueError
      else if \<not> validate_course_name cname then Inl ValueError
      else Inr \<lparr>course_id = str_of cid, course_name = str_of cname, instructor = inst,
                enrolled_students = []\<rparr>)"

record SchoolManagementSystem =
  students :: "ref list"
  instructors :: "ref list"
  courses :: "ref list"

text \<open>
  The heap of this module's objects, the next unused reference, and one
  \<open>SchoolManagementSystem\<close> object.
\<close>

record campus =
  student_obj :: "ref \<Rightarrow> SM_Student"
  instructor_obj :: "ref \<Rightarrow> SM_Instructor"
  course_obj :: "ref \<Rightarrow> SM_Course"
  next_ref :: ref
  sms :: SchoolManagementSystem

definition new_student :: "campus \<Rightarrow> SM_Student \<Rightarrow> ref \<times> campus" where
  "new_student g obj =
     (next_ref g, g\<lparr>student_obj := (student_obj g)(next_ref g := obj), next_ref := Suc (next_ref g)\<rparr>)"

definition new_instructor :: "campus \<Rightarrow> SM_Instructor \<Rightarrow> ref \<times> campus" where
  "new_instructor g obj =
     (next_ref g,
      g\<lparr>instructor_obj := (instructor_obj g)(next_ref g := obj), next_ref := Suc (next_ref g)\<rparr>)"

definition new_course :: "campus \<Rightarrow> SM_Course \<Rightarrow> ref \<times> campus" where
  "new_course g obj =
     (next_ref g, g\<lparr>course_obj := (course_obj g)(next_ref g := obj), next_ref := Suc (next_ref g)\<rparr>)"

text \<open>
  \<open>SchoolManagementSystem.add_student\<close>, \<open>add_instructor\<close>, \<open>add_course\<close>: an append with no
  check, returning nothing.
\<close>

definition system_add_student :: "campus \<Rightarrow> ref \<Rightarrow> campus" where
  "system_add_student g s =
     g\<lparr>sms := (sms g)\<lparr>SchoolManagementSystem.students :=
                         SchoolManagementSystem.students (sms g) @ [s]\<rparr>\<rparr>"

definition system_add_instructor :: "campus \<Rightarrow> ref \<Rightarrow> campus" where
  "system_add_instructor g i =
     g\<lparr>sms := (sms g)\<lparr>SchoolManagementSystem.instructors :=
                         SchoolManagementSystem.instructors (sms g) @ [i]\<rparr>\<rparr>"

definition system_add_course :: "campus \<Rightarrow> ref \<Rightarrow> campus" where
  "system_add_course g c =
     g\<lparr>sms := (sms g)\<lparr>SchoolManagementSystem.courses :=
                         SchoolManagementSystem.courses (sms g) @ [c]\<rparr>\<rparr>"

definition find_student_by_id :: "campus \<Rightarrow> string \<Rightarrow> ref option" where
  "find_student_by_id g sid =
     find (\<lambda>s. SM_Student.student_id (student_obj g s) = sid)
       (SchoolManagementSystem.students (sms g))"

definition find_instructor_by_id :: "campus \<Rightarrow> string \<Rightarrow> ref option" where
  "find_instructor_by_id g iid =
     find (\<lambda>i. SM_Instructor.instructor_id (instructor_obj g i) = iid)
       (SchoolManagementSystem.instructors (sms g))"

definition find_course_by_id :: "campus \<Rightarrow> string \<Rightarrow> ref option" where
  "find_course_by_id g cid =
     find (\<lambda>c. SM_Course.course_id (course_obj g c) = cid)
       (SchoolManagementSystem.courses (sms g))"

text \<open>\<open>Course.add_student\<close>, \<open>Student.register_course\<close>, \<open>Instructor.assign_course\<close>.\<close>

definition Course_add_student :: "campus \<Rightarrow> ref \<Rightarrow> ref \<Rightarrow> campus" where
  "Course_add_student g c s =
     (if s \<notin> set (enrolled_students (course_obj g c))
      then g\<lparr>course_obj := (course_obj g)
             (c := (course_obj g c)\<lparr>enrolled_students := enrolled_students (course_obj g c) @ [s]\<rparr>)\<rparr>
      else g)"

definition register_course :: "campus \<Rightarrow> ref \<Rightarrow> ref \<Rightarrow> campus" where
  "register_course g s c =
     (if c \<notin> set (registered_courses (student_obj g s))
      then Course_add_student
             (g\<lparr>student_obj := (student_obj g)
                (s := (student_obj g s)
                   \<lparr>registered_courses := registered_courses (student_obj g s) @ [c]\<rparr>)\<rparr>) c s
      else g)"

definition assign_course :: "campus \<Rightarrow> ref \<Rightarrow> ref \<Rightarrow> campus" where
  "assign_course g i c =
     (if c \<notin> set (assigned_courses (instructor_obj g i))
      then g\<lparr>instructor_obj := (instructor_obj g)
               (i := (instructor_obj g i)
                  \<lparr>assigned_courses := assigned_courses (instructor_obj g i) @ [c]\<rparr>),
             course_obj := (course_obj g)
               (c := (course_obj g c)\<lparr>SM_Course.instructor := Some i\<rparr>)\<rparr>
      else g)"

section \<open>The SQLite store of \<open>database_manager.py\<close>\<close>

text \<open>
  The four tables of \<open>init_database\<close>, each a list of rows in insertion order. The
  \<open>created_at\<close>, \<open>updated_at\<close> and \<open>registration_date\<close> columns hold the wall-clock time and
  are left out, and so are the three triggers, which only write \<open>updated_at\<close>.
  \<open>sqlite_sequence\<close> is the counter behind \<open>INTEGER PRIMARY KEY AUTOINCREMENT\<close>.
\<close>

record students_row =
  student_id :: string
  name :: string
  age :: int
  email :: string

record instructors_row =
  instructor_id :: string
  name :: string
  age :: int
  email :: string

record courses_row =
  course_id :: string
  course_name :: string
  instructor_id :: "string option"

record registrations_row =
  rowid :: nat
  student_id :: string
  course_id :: string

record database =
  students :: "students_row list"
  instructors :: "instructors_row list"
  courses :: "courses_row list"
  student_course_registrations :: "registrations_row list"
  sqlite_sequence :: nat

datatype db_error = IntegrityError | OverflowError | OperationalError

text \<open>
  The statements the module executes. A \<open>DELETE\<close> carries its \<open>WHERE\<close> key, or \<open>None\<close> when it
  has no \<open>WHERE\<close> clause; an \<open>UPDATE\<close> carries the key and the new value of each column that
  its \<open>SET\<close> list names.
\<close>

datatype stmt =
    InsertStudent students_row
  | InsertInstructor instructors_row
  | InsertCourse courses_row
  | InsertRegistration string string
  | DeleteStudents "string option"
  | DeleteInstructors "string option"
  | DeleteCourses "string option"
  | DeleteRegistrations "(string \<times> string) option"
  | UpdateStudent string "string option" "int option" "string option"
  | UpdateInstructor string "string option" "int option" "string option"
  | UpdateCourse string "string option" "string option"

text \<open>
  A Python integer is bound to a statement only if it fits SQLite's 64-bit INTEGER. A
  string is bound whatever its length: SQLite's limit of 10^9 bytes on the length of a
  string is not modelled.
\<close>

definition int64 :: "int \<Rightarrow> bool" where
  "int64 a = (- (2 ^ 63) \<le> a \<and> a < 2 ^ 63)"

definition selected :: "'k option \<Rightarrow> 'k \<Rightarrow> bool" where
  "selected wh k = (case wh of None \<Rightarrow> True | Some k' \<Rightarrow> k = k')"

text \<open>
  \<open>execute fk db st\<close> runs one statement on the tables \<open>db\<close> and gives the new tables and the
  cursor's \<open>rowcount\<close>, or the exception raised. The constraints are those of the schema:
  the primary keys, \<open>UNIQUE\<close> on the two email columns and on the registration pair, and
  \<open>CHECK(age >= 0)\<close>. The flag \<open>fk\<close> is the connection's \<open>PRAGMA foreign_keys\<close>: only when it
  is set are the \<open>FOREIGN KEY\<close> clauses checked on insert and update and their
  \<open>ON DELETE CASCADE\<close> and \<open>ON DELETE SET NULL\<close> actions carried out.
\<close>

fun execute :: "bool \<Rightarrow> database \<Rightarrow> stmt \<Rightarrow> db_error + (database \<times> nat)" where
  "execute fk db (InsertStudent r) =
     (if \<not> int64 (students_row.age r) then Inl OverflowError
      else if students_row.age r < 0
           \<or> students_row.student_id r \<in> set (map students_row.student_id (students db))
           \<or> students_row.email r \<in> set (map students_row.email (students db))
      then Inl IntegrityError
      else Inr (db\<lparr>students := students db @ [r]\<rparr>, 1))"
| "execute fk db (InsertInstructor r) =
     (if \<not> int64 (instructors_row.age r) then Inl OverflowError
      else if instructors_row.age r < 0
           \<or> instructors_row.instructor_id r
               \<in> set (map instructors_row.instructor_id (instructors db))
           \<or> instructors_row.email r \<in> set (map instructors_row.email (instructors db))
      then Inl IntegrityError
      else Inr (db\<lparr>instructors := instructors db @ [r]\<rparr>, 1))"
| "execute fk db (InsertCourse r) =
     (if courses_row.course_id r \<in> set (map courses_row.course_id (courses db))
         \<or> (fk \<and> (case courses_row.instructor_id r of
                      None \<Rightarrow> False
                    | Some i \<Rightarrow> i \<notin> set (map instructors_row.instructor_id (instructors db))))
      then Inl IntegrityError
      else Inr (db\<lparr>courses := courses db @ [r]\<rparr>, 1))"
| "execute fk db (InsertRegistration sid cid) =
     (if (sid, cid) \<in> set (map (\<lambda>r. (registrations_row.student_id r, registrations_row.course_id r))
                             (student_course_registrations db))
         \<or> (fk \<and> (sid \<notin> set (map students_row.student_id (students db))
                  \<or> cid \<notin> set (map courses_row.course_id (courses db))))
      then Inl IntegrityError
      else Inr (db\<lparr>student_course_registrations := student_course_registrations db @
                     [\<lparr>rowid = Suc (sqlite_sequence db), student_id = sid, course_id = cid\<rparr>],
                   sqlite_sequence := Suc (sqlite_sequence db)\<rparr>, 1))"
| "execute fk db (DeleteStudents wh) =
     (let gone = filter (\<lambda>r. selected wh (students_row.student_id r)) (students db)
      in Inr (db\<lparr>students := filter (\<lambda>r. \<not> selected wh (students_row.student_id r)) (students db),
                 student_course_registrations :=
                   (if fk
                    then filter (\<lambda>r. registrations_row.student_id r
                                        \<notin> set (map students_row.student_id gone))
                           (student_course_registrations db)
                    else student_course_registrations db)\<rparr>,
              length gone))"
| "execute fk db (DeleteInstructors wh) =
     (let gone = filter (\<lambda>r. selected wh (instructors_row.instructor_id r)) (instructors db)
      in Inr (db\<lparr>instructors :=
                   filter (\<lambda>r. \<not> selected wh (instructors_row.instructor_id r)) (instructors db),
                 courses :=
                   (if fk
                    then map (\<lambda>c. case courses_row.instructor_id c of
                                     None \<Rightarrow> c
                                   | Some i \<Rightarrow>
                                       if i \<in> set (map instructors_row.instructor_id gone)
                                       then c\<lparr>courses_row.instructor_id := None\<rparr> else c)
                           (courses db)
                    else courses db)\<rparr>,
              length gone))"
| "execute fk db (DeleteCourses wh) =
     (let gone = filter (\<lambda>r. selected wh (courses_row.course_id r)) (courses db)
      in Inr (db\<lparr>courses := filter (\<lambda>r. \<not> selected wh (courses_row.course_id r)) (courses db),
                 student_course_registrations :=
                   (if fk
                    then filter (\<lambda>r. registrations_row.course_id r
                                        \<notin> set (map courses_row.course_id gone))
                           (student_course_registrations db)
                    else student_course_registrations db)\<rparr>,
              length gone))"
| "execute fk db (DeleteRegistrations wh) =
     (let hit = (\<lambda>r. selected wh (registrations_row.student_id r, registrations_row.course_id r))
      in Inr (db\<lparr>student_course_registrations :=
                   filter (\<lambda>r. \<not> hit r) (student_course_registrations db)\<rparr>,
              length (filter hit (student_course_registrations db))))"
| "execute fk db (UpdateStudent sid nm ag em) =
     (let hit = filter (\<lambda>r. students_row.student_id r = sid) (students db)
      in if (case ag of None \<Rightarrow> False | Some a \<Rightarrow> \<not> int64 a) then Inl OverflowError
         else if hit \<noteq> []
                 \<and> ((case ag of None \<Rightarrow> False | Some a \<Rightarrow> a < 0)
                    \<or> (case em of
                          None \<Rightarrow> False
                        | Some e \<Rightarrow> \<exists>r \<in> set (students db).
                                     students_row.student_id r \<noteq> sid \<and> students_row.email r = e))
         then Inl IntegrityError
         else Inr (db\<lparr>students :=
                        map (\<lambda>r. if students_row.student_id r = sid
                                  then r\<lparr>students_row.name :=
                                           (case nm of None \<Rightarrow> students_row.name r | Some n \<Rightarrow> n),
                                         students_row.age :=
                                           (case ag of None \<Rightarrow> students_row.age r | Some a \<Rightarrow> a),
                                         students_row.email :=
                                           (case em of None \<Rightarrow> students_row.email r | Some e \<Rightarrow> e)\<rparr>
                                  else r)
                          (students db)\<rparr>,
                   length hit))"
| "execute fk db (UpdateInstructor iid nm ag em) =
     (let hit = filter (\<lambda>r. instructors_row.instructor_id r = iid) (instructors db)
      in if (case ag of None \<Rightarrow> False | Some a \<Rightarrow> \<not> int64 a) then Inl OverflowError
         else if hit \<noteq> []
                 \<and> ((case ag of None \<Rightarrow> False | Some a \<Rightarrow> a < 0)
                    \<or> (case em of
                          None \<Rightarrow> False
                        | Some e \<Rightarrow> \<exists>r \<in> set (instructors db).
                                     instructors_row.instructor_id r \<noteq> iid
                                     \<and> instructors_row.email r = e))
         then Inl IntegrityError
         else Inr (db\<lparr>instructors :=
                        map (\<lambda>r. if instructors_row.instructor_id r = iid
                                  then r\<lparr>instructors_row.name :=
                                           (case nm of None \<Rightarrow> instructors_row.name r | Some n \<Rightarrow> n),
                                         instructors_row.age :=
                                           (case ag of None \<Rightarrow> instructors_row.age r | Some a \<Rightarrow> a),
                                         instructors_row.email :=
                                           (case em of None \<Rightarrow> instructors_row.email r | Some e \<Rightarrow> e)\<rparr>
                                  else r)
                          (instructors db)\<rparr>,
                   length hit))"
| "execute fk db (UpdateCourse cid cn ins) =
     (let hit = filter (\<lambda>r. courses_row.course_id r = cid) (courses db)
      in if hit \<noteq> [] \<and> fk
            \<and> (case ins of
                  None \<Rightarrow> False
                | Some i \<Rightarrow> i \<notin> set (map instructors_row.instructor_id (instructors db)))
         then Inl IntegrityError
         else Inr (db\<lparr>courses :=
                        map (\<lambda>r. if courses_row.course_id r = cid
                                  then r\<lparr>courses_row.course_name :=
                                           (case cn of None \<Rightarrow> courses_row.course_name r | Some n \<Rightarrow> n),
                                         courses_row.instructor_id :=
                                           (case ins of
                                              None \<Rightarrow> courses_row.instructor_id r
                                            | Some i \<Rightarrow> Some i)\<rparr>
                                  else r)
                          (courses db)\<rparr>,
                   length hit))"


text \<open>
  Every method opens its connection with \<open>sqlite3.connect(self.db_path)\<close> and issues no
  \<open>PRAGMA\<close>, so the connection has SQLite's default setting of \<open>foreign_keys\<close>, which is off.
\<close>

definition foreign_keys :: bool where
  "foreign_keys = False"

text \<open>
  \<open>with sqlite3.connect(...) as conn\<close> commits when its body ends and rolls back when the body
  raises; every method catches the exception and returns \<open>False\<close>. The methods below give
  the returned value and the tables left in the file.
\<close>

definition students_row_of :: "SM_Student \<Rightarrow> students_row" where
  "students_row_of s =
     \<lparr>students_row.student_id = SM_Student.student_id s, name = SM_Student.name s,
      age = SM_Student.age s, email = SM_Student.email s\<rparr>"

definition instructors_row_of :: "SM_Instructor \<Rightarrow> instructors_row" where
  "instructors_row_of i =
     \<lparr>instructors_row.instructor_id = SM_Instructor.instructor_id i, name = SM_Instructor.name i,
      age = SM_Instructor.age i, email = SM_Instructor.email i\<rparr>"

definition courses_row_of :: "campus \<Rightarrow> SM_Course \<Rightarrow> courses_row" where
  "courses_row_of g c =
     \<lparr>courses_row.course_id = SM_Course.course_id c, course_name = SM_Course.course_name c,
      instructor_id =
        (case SM_Course.instructor c of
           None \<Rightarrow> None
         | Some i \<Rightarrow> Some (SM_Instructor.instructor_id (instructor_obj g i)))\<rparr>"

definition add_student :: "database \<Rightarrow> SM_Student \<Rightarrow> bool \<times> database" where
  "add_student db s =
     (case execute foreign_keys db (InsertStudent (students_row_of s)) of
        Inl e \<Rightarrow> (False, db)
      | Inr (db', n) \<Rightarrow> (True, db'))"

definition add_instructor :: "database \<Rightarrow> SM_Instructor \<Rightarrow> bool \<times> database" where
  "add_instructor db i =
     (case execute foreign_keys db (InsertInstructor (instructors_row_of i)) of
        Inl e \<Rightarrow> (False, db)
      | Inr (db', n) \<Rightarrow> (True, db'))"

definition add_course :: "database \<Rightarrow> campus \<Rightarrow> SM_Course \<Rightarrow> bool \<times> database" where
  "add_course db g c =
     (case execute foreign_keys db (InsertCourse (courses_row_of g c)) of
        Inl e \<Rightarrow> (False, db)
      | Inr (db', n) \<Rightarrow> (True, db'))"

definition register_student_to_course :: "database \<Rightarrow> string \<Rightarrow> string \<Rightarrow> bool \<times> database" where
  "register_student_to_course db sid cid =
     (case execute foreign_keys db (InsertRegistration sid cid) of
        Inl e \<Rightarrow> (False, db)
      | Inr (db', n) \<Rightarrow> (True, db'))"

text \<open>
  The three updates: an argument left at \<open>None\<close> adds nothing to \<open>updates\<close>; with \<open>updates\<close>
  empty no statement is executed and the result is \<open>True\<close>.
\<close>

definition update_student ::
    "database \<Rightarrow> string \<Rightarrow> string option \<Rightarrow> int option \<Rightarrow> string option \<Rightarrow> bool \<times> database" where
  "update_student db sid nm ag em =
     (if nm = None \<and> ag = None \<and> em = None then (True, db)
      else case execute foreign_keys db (UpdateStudent sid nm ag em) of
             Inl e \<Rightarrow> (False, db)
           | Inr (db', n) \<Rightarrow> (n > 0, db'))"

definition update_instructor ::
    "database \<Rightarrow> string \<Rightarrow> string option \<Rightarrow> int option \<Rightarrow> string option \<Rightarrow> bool \<times> database" where
  "update_instructor db iid nm ag em =
     (if nm = None \<and> ag = None \<and> em = None then (True, db)
      else case execute foreign_keys db (UpdateInstructor iid nm ag em) of
             Inl e \<Rightarrow> (False, db)
           | Inr (db', n) \<Rightarrow> (n > 0, db'))"

definition update_course ::
    "database \<Rightarrow> string \<Rightarrow> string option \<Rightarrow> string option \<Rightarrow> bool \<times> database" where
  "update_course db cid cn ins =
     (if cn = None \<and> ins = None then (True, db)
      else case execute foreign_keys db (UpdateCourse cid cn ins) of
             Inl e \<Rightarrow> (False, db)
           | Inr (db', n) \<Rightarrow> (n > 0, db'))"

definition delete_student :: "database \<Rightarrow> string \<Rightarrow> bool \<times> database" where
  "delete_student db sid =
     (case execute foreign_keys db (DeleteStudents (Some sid)) of
        Inl e \<Rightarrow> (False, db)
      | Inr (db', n) \<Rightarrow> (n > 0, db'))"

definition delete_instructor :: "database \<Rightarrow> string \<Rightarrow> bool \<times> database" where
  "delete_instructor db iid =
     (case execute foreign_keys db (DeleteInstructors (Some iid)) of
        Inl e \<Rightarrow> (False, db)
      | Inr (db', n) \<Rightarrow> (n > 0, db'))"

definition delete_course :: "database \<Rightarrow> string \<Rightarrow> bool \<times> database" where
  "delete_course db cid =
     (case execute foreign_keys db (DeleteCourses (Some cid)) of
        Inl e \<Rightarrow> (False, db)
      | Inr (db', n) \<Rightarrow> (n > 0, db'))"

definition unregister_student_from_course :: "database \<Rightarrow> string \<Rightarrow> string \<Rightarrow> bool \<times> database" where
  "unregister_student_from_course db sid cid =
     (case execute foreign_keys db (DeleteRegistrations (Some (sid, cid))) of
        Inl e \<Rightarrow> (False, db)
      | Inr (db', n) \<Rightarrow> (n > 0, db'))"

text \<open>
  The queries. SQLite compares text byte by byte, which on UTF-8 is the order of the code
  points. \<open>ORDER BY\<close> is a stable sort of the rows in the order in which the statement
  produces them: table order for a scan of one table and for the \<open>LEFT JOIN\<close>, which scans
  the courses.
\<close>

definition get_all_students :: "database \<Rightarrow> students_row list" where
  "get_all_students db = sort_key students_row.name (students db)"

definition get_all_instructors :: "database \<Rightarrow> instructors_row list" where
  "get_all_instructors db = sort_key instructors_row.name (instructors db)"

type_synonym course_view = "string \<times> string \<times> string option \<times> string option"

text \<open>\<open>FROM courses c LEFT JOIN instructors i ON c.instructor_id = i.instructor_id\<close>\<close>

definition courses_left_join :: "database \<Rightarrow> course_view list" where
  "courses_left_join db =
     concat (map (\<lambda>c.
       case filter (\<lambda>i. courses_row.instructor_id c = Some (instructors_row.instructor_id i))
              (instructors db) of
         [] \<Rightarrow> [(courses_row.course_id c, courses_row.course_name c, None, None)]
       | js \<Rightarrow> map (\<lambda>i. (courses_row.course_id c, courses_row.course_name c,
                          Some (instructors_row.instructor_id i), Some (instructors_row.name i))) js)
       (courses db))"

definition get_all_courses :: "database \<Rightarrow> course_view list" where
  "get_all_courses db = sort_key (\<lambda>(cid, cn, iid, inm). cn) (courses_left_join db)"

text \<open>
  \<open>FROM courses c JOIN student_course_registrations scr ON c.course_id = scr.course_id
  WHERE scr.student_id = ?\<close>: SQLite reads the registrations of the student from the index of
  \<open>UNIQUE(student_id, course_id)\<close>, that is by course id, and looks each course up.
\<close>

definition get_student_courses :: "database \<Rightarrow> string \<Rightarrow> (string \<times> string) list" where
  "get_student_courses db sid =
     sort_key snd
       (concat (map (\<lambda>scr.
          map (\<lambda>c. (courses_row.course_id c, courses_row.course_name c))
            (filter (\<lambda>c. courses_row.course_id c = registrations_row.course_id scr)
               (courses db)))
          (sort_key registrations_row.course_id
             (filter (\<lambda>scr. registrations_row.student_id scr = sid)
                (student_course_registrations db)))))"

text \<open>
  SQLite's \<open>LIKE\<close>. The function first looks at the length of the pattern in bytes of its
  UTF-8 encoding, one byte for a code point below 128 and two for the others, and raises
  \<open>OperationalError\<close> when it exceeds 50000. It then reads the pattern and the text as C
  strings, that is up to their first NUL character, and compares them: \<open>%\<close> matches any run
  of characters, \<open>_\<close> any one character, and any other character matches itself up to the
  case of the letters A to Z.
\<close>

definition sqlite3Tolower :: "char \<Rightarrow> char" where
  "sqlite3Tolower c =
     (let n = (of_char c :: nat) in if 65 \<le> n \<and> n \<le> 90 then char_of (n + 32) else c)"

fun patternCompare :: "string \<Rightarrow> string \<Rightarrow> bool" where
  "patternCompare [] t = (t = [])"
| "patternCompare (p # ps) [] = (if p = CHR ''%'' then patternCompare ps [] else False)"
| "patternCompare (p # ps) (c # cs) =
     (if p = CHR ''%'' then patternCompare ps (c # cs) \<or> patternCompare (p # ps) cs
      else (p = CHR ''_'' \<or> sqlite3Tolower p = sqlite3Tolower c) \<and> patternCompare ps cs)"

definition utf8_bytes :: "string \<Rightarrow> nat" where
  "utf8_bytes s = sum_list (map (\<lambda>c. if (of_char c :: nat) < 128 then 1 else 2) s)"

definition c_string :: "string \<Rightarrow> string" where
  "c_string s = takeWhile (\<lambda>c. c \<noteq> CHR 0x00) s"

definition like :: "string \<Rightarrow> string \<Rightarrow> db_error + bool" where
  "like pat x =
     (if utf8_bytes pat > 50000 then Inl OperationalError
      else Inr (patternCompare (c_string pat) (c_string x)))"

text \<open>
  \<open>a OR b\<close> in a \<open>WHERE\<close> clause, and the rows of a \<open>SELECT\<close> that satisfy its \<open>WHERE\<close>
  clause: the clause is evaluated on each row in turn, and an error ends the statement.
\<close>

definition sql_or :: "db_error + bool \<Rightarrow> db_error + bool \<Rightarrow> db_error + bool" where
  "sql_or a b = (case a of Inl e \<Rightarrow> Inl e | Inr t \<Rightarrow> if t then Inr True else b)"

fun select_where :: "('r \<Rightarrow> db_error + bool) \<Rightarrow> 'r list \<Rightarrow> db_error + 'r list" where
  "select_where cond [] = Inr []"
| "select_where cond (r # rs) =
     (case cond r of
        Inl e \<Rightarrow> Inl e
      | Inr t \<Rightarrow>
          (case select_where cond rs of
             Inl e \<Rightarrow> Inl e
           | Inr ys \<Rightarrow> Inr (if t then r # ys else ys)))"

text \<open>
  The search methods put the term between two \<open>%\<close> without escaping it. They catch no
  exception, so the error of the statement is the error of the method.
\<close>

definition search_pattern :: "string \<Rightarrow> string" where
  "search_pattern search_term = ''%'' @ search_term @ ''%''"

definition search_students :: "database \<Rightarrow> string \<Rightarrow> db_error + students_row list" where
  "search_students db search_term =
     (case select_where
             (\<lambda>r. sql_or (like (search_pattern search_term) (students_row.name r))
                     (sql_or (like (search_pattern search_term) (students_row.student_id r))
                        (like (search_pattern search_term) (students_row.email r))))
             (students db) of
        Inl e \<Rightarrow> Inl e
      | Inr rows \<Rightarrow> Inr (sort_key students_row.name rows))"

definition search_instructors :: "database \<Rightarrow> string \<Rightarrow> db_error + instructors_row list" where
  "search_instructors db search_term =
     (case select_where
             (\<lambda>r. sql_or (like (search_pattern search_term) (instructors_row.name r))
                     (sql_or (like (search_pattern search_term) (instructors_row.instructor_id r))
                        (like (search_pattern search_term) (instructors_row.email r))))
             (instructors db) of
        Inl e \<Rightarrow> Inl e
      | Inr rows \<Rightarrow> Inr (sort_key instructors_row.name rows))"

definition search_courses :: "database \<Rightarrow> string \<Rightarrow> db_error + course_view list" where
  "search_courses db search_term =
     (case select_where
             (\<lambda>(cid, cn, iid, inm). sql_or (like (search_pattern search_term) cn)
                                       (like (search_pattern search_term) cid))
             (courses_left_join db) of
        Inl e \<Rightarrow> Inl e
      | Inr rows \<Rightarrow> Inr (sort_key (\<lambda>(cid, cn, iid, inm). cn) rows))"

text \<open>
  \<open>cursor.execute\<close> inside a method keeps the new tables and drops the row count. A \<open>for\<close>
  statement whose body executes statements runs the body on each element in turn and
  stops at the first exception.
\<close>

definition cursor_execute :: "database \<Rightarrow> stmt \<Rightarrow> db_error + database" where
  "cursor_execute db st =
     (case execute foreign_keys db st of Inl e \<Rightarrow> Inl e | Inr (db', n) \<Rightarrow> Inr db')"

fun for_each :: "('a \<Rightarrow> database \<Rightarrow> db_error + database) \<Rightarrow> 'a list \<Rightarrow> database
    \<Rightarrow> db_error + database" where
  "for_each body [] db = Inr db"
| "for_each body (x # xs) db =
     (case body x db of Inl e \<Rightarrow> Inl e | Inr db' \<Rightarrow> for_each body xs db')"

text \<open>
  \<open>sync_system_to_db\<close>: the body of the \<open>with\<close> block, statement by statement, and then the
  method, which returns \<open>False\<close> after the rollback when the body raises.
\<close>

definition sync_body :: "campus \<Rightarrow> database \<Rightarrow> db_error + database" where
  "sync_body g db =
     (case cursor_execute db (DeleteRegistrations None) of
        Inl e \<Rightarrow> Inl e
      | Inr db1 \<Rightarrow>
     (case cursor_execute db1 (DeleteCourses None) of
        Inl e \<Rightarrow> Inl e
      | Inr db2 \<Rightarrow>
     (case cursor_execute db2 (DeleteInstructors None) of
        Inl e \<Rightarrow> Inl e
      | Inr db3 \<Rightarrow>
     (case cursor_execute db3 (DeleteStudents None) of
        Inl e \<Rightarrow> Inl e
      | Inr db4 \<Rightarrow>
     (case for_each
             (\<lambda>s d. cursor_execute d (InsertStudent (students_row_of (student_obj g s))))
             (SchoolManagementSystem.students (sms g)) db4 of
        Inl e \<Rightarrow> Inl e
      | Inr db5 \<Rightarrow>
     (case for_each
             (\<lambda>i d. cursor_execute d (InsertInstructor (instructors_row_of (instructor_obj g i))))
             (SchoolManagementSystem.instructors (sms g)) db5 of
        Inl e \<Rightarrow> Inl e
      | Inr db6 \<Rightarrow>
     (case for_each
             (\<lambda>c d. cursor_execute d (InsertCourse (courses_row_of g (course_obj g c))))
             (SchoolManagementSystem.courses (sms g)) db6 of
        Inl e \<Rightarrow> Inl e
      | Inr db7 \<Rightarrow>
          for_each
            (\<lambda>s. for_each
               (\<lambda>c d. cursor_execute d
                  (InsertRegistration (SM_Student.student_id (student_obj g s))
                     (SM_Course.course_id (course_obj g c))))
               (registered_courses (student_obj g s)))
            (SchoolManagementSystem.students (sms g)) db7)))))))"

definition sync_system_to_db :: "database \<Rightarrow> campus \<Rightarrow> bool \<times> database" where
  "sync_system_to_db db g =
     (case sync_body g db of
        Inl e \<Rightarrow> (False, db)
      | Inr db' \<Rightarrow> (True, db'))"

text \<open>
  \<open>load_system_from_db\<close>: three passes over the rows read, each building objects with the
  validating constructors, whose \<open>ValueError\<close> the method does not catch.
\<close>

fun load_instructors :: "campus \<Rightarrow> instructors_row list \<Rightarrow> error + campus" where
  "load_instructors g [] = Inr g"
| "load_instructors g (r # rows) =
     (case SM_Instructor_init (StrVal (instructors_row.name r)) (IntVal (instructors_row.age r))
             (StrVal (instructors_row.email r)) (StrVal (instructors_row.instructor_id r)) of
        Inl e \<Rightarrow> Inl e
      | Inr obj \<Rightarrow>
          (case new_instructor g obj of
             (i, g1) \<Rightarrow> load_instructors (system_add_instructor g1 i) rows))"

fun load_courses :: "campus \<Rightarrow> course_view list \<Rightarrow> error + campus" where
  "load_courses g [] = Inr g"
| "load_courses g ((cid, cn, iid, inm) # rows) =
     (let inst = (case iid of
                    None \<Rightarrow> None
                  | Some i \<Rightarrow> if i = [] then None else find_instructor_by_id g i)
      in case SM_Course_init (StrVal cid) (StrVal cn) inst of
           Inl e \<Rightarrow> Inl e
         | Inr obj \<Rightarrow>
             (case new_course g obj of
                (c, g1) \<Rightarrow>
                  load_courses
                    (case inst of
                       None \<Rightarrow> system_add_course g1 c
                     | Some i \<Rightarrow> assign_course (system_add_course g1 c) i c)
                    rows))"

fun load_registrations :: "campus \<Rightarrow> ref \<Rightarrow> (string \<times> string) list \<Rightarrow> campus" where
  "load_registrations g s [] = g"
| "load_registrations g s ((cid, cn) # rows) =
     load_registrations
       (case find_course_by_id g cid of
          None \<Rightarrow> g
        | Some c \<Rightarrow> register_course g s c)
       s rows"

fun load_students :: "database \<Rightarrow> campus \<Rightarrow> students_row list \<Rightarrow> error + campus" where
  "load_students db g [] = Inr g"
| "load_students db g (r # rows) =
     (case SM_Student_init (StrVal (students_row.name r)) (IntVal (students_row.age r))
             (StrVal (students_row.email r)) (StrVal (students_row.student_id r)) of
        Inl e \<Rightarrow> Inl e
      | Inr obj \<Rightarrow>
          (case new_student g obj of
             (s, g1) \<Rightarrow>
               load_students db
                 (load_registrations (system_add_student g1 s) s
                    (get_student_courses db (students_row.student_id r)))
                 rows))"

text \<open>
  The objects are built in the heap of the caller, given as \<open>h\<close>; the system returned is a
  new, empty \<open>SchoolManagementSystem\<close> filled by the three passes.
\<close>

definition load_system_from_db :: "database \<Rightarrow> campus \<Rightarrow> error + campus" where
  "load_system_from_db db h =
     (case load_instructors
             (h\<lparr>sms := \<lparr>SchoolManagementSystem.students = [], instructors = [], courses = []\<rparr>\<rparr>)
             (get_all_instructors db) of
        Inl e \<Rightarrow> Inl e
      | Inr g1 \<Rightarrow>
          (case load_courses g1 (get_all_courses db) of
             Inl e \<Rightarrow> Inl e
           | Inr g2 \<Rightarrow> load_students db g2 (get_all_students db)))"

section \<open>Notions used in the statements\<close>

text \<open>
  What \<open>sync_system_to_db\<close> reads from a graph: the rows of the three entity tables, and the
  (student id, course id) pairs of the students' \<open>registered_courses\<close> lists. \<open>reg_key\<close> is
  the pair held by a row of the registrations table.
\<close>

definition student_rows :: "campus \<Rightarrow> students_row list" where
  "student_rows g =
     map (\<lambda>s. students_row_of (student_obj g s)) (SchoolManagementSystem.students (sms g))"



definition registration_pairs :: "campus \<Rightarrow> (string \<times> string) list" where
  "registration_pairs g =
     concat (map (\<lambda>s.
         map (\<lambda>c. (SM_Student.student_id (student_obj g s), SM_Course.course_id (course_obj g c)))
           (registered_courses (student_obj g s)))
       (SchoolManagementSystem.students (sms g)))"

definition reg_key :: "registrations_row \<Rightarrow> string \<times> string" where
  "reg_key r = (registrations_row.student_id r, registrations_row.course_id r)"






definition valid_courses_row :: "courses_row \<Rightarrow> bool" where
  "valid_courses_row r =
     (validate_course_id (StrVal (courses_row.course_id r))
      \<and> validate_course_name (StrVal (courses_row.course_name r)))"





text \<open>
  The language of a regular expression, the set of strings it denotes: what the derivative
  matcher is measured against.
\<close>

definition conc :: "string set \<Rightarrow> string set \<Rightarrow> string set" where
  "conc A B = {u @ v |u v. u \<in> A \<and> v \<in> B}"

inductive_set star :: "string set \<Rightarrow> string set" for A :: "string set" where
  star_nil: "[] \<in> star A"
| star_app: "u \<in> A \<Longrightarrow> v \<in> star A \<Longrightarrow> u @ v \<in> star A"

fun lang :: "rexp \<Rightarrow> string set" where
  "lang Zero = {}"
| "lang One = {[]}"
| "lang (Class P) = {[c] |c. P c}"
| "lang (Alt r s) = lang r \<union> lang s"
| "lang (Seq r s) = conc (lang r) (lang s)"
| "lang (Star r) = star (lang r)"

text \<open>
  The address format in words: a non-empty local part, an at sign, a non-empty domain, a
  dot and a top-level part, with the characters each part may hold.
\<close>

definition address :: "(char \<Rightarrow> bool) \<Rightarrow> (char \<Rightarrow> bool) \<Rightarrow> (string \<Rightarrow> bool) \<Rightarrow> string \<Rightarrow> bool" where
  "address L D T e =
     (\<exists>l d t. e = l @ ''@'' @ d @ ''.'' @ t
        \<and> l \<noteq> [] \<and> list_all L l \<and> d \<noteq> [] \<and> list_all D d \<and> T t)"

text \<open>A format met by the whole string, or by the string without the newline that ends it.\<close>

definition or_before_newline :: "(string \<Rightarrow> bool) \<Rightarrow> string \<Rightarrow> bool" where
  "or_before_newline A e = (A e \<or> (\<exists>e'. e = e' @ [newline] \<and> A e'))"

text \<open>The address accepted by \<open>school_management.py\<close> and the one accepted by \<open>school.py\<close>.\<close>

definition strict_address :: "string \<Rightarrow> bool" where
  "strict_address e =
     or_before_newline
       (address local_char domain_char (\<lambda>t. 2 \<le> length t \<and> list_all is_letter t)) e"

definition loose_address :: "string \<Rightarrow> bool" where
  "loose_address e =
     or_before_newline
       (address not_at_space not_at_space (\<lambda>t. t \<noteq> [] \<and> list_all not_at_space t)) e"

text \<open>
  What the searches of the store compare. \<open>nocase\<close> folds the letters A to Z and nothing
  else. \<open>term_matches t x\<close>: the text \<open>x\<close> matches the pattern made of the term \<open>t\<close> between
  two \<open>%\<close>, both read up to their first NUL character. \<open>endswith x q\<close> is Python's
  \<open>x.endswith(q)\<close>.
\<close>

definition nocase :: "string \<Rightarrow> string" where
  "nocase s = map sqlite3Tolower s"

definition term_matches :: "string \<Rightarrow> string \<Rightarrow> bool" where
  "term_matches t x = patternCompare (c_string (search_pattern t)) (c_string x)"

definition endswith :: "string \<Rightarrow> string \<Rightarrow> bool" where
  "endswith x q = startswith (rev x) (rev q)"

text \<open>
  A string is blank when it holds white space only. A number is negative when it is below
  zero, which the value that is not a number is not. \<open>whole z m e\<close>: the integer \<open>z\<close> is the
  whole part of the number \<open>m * 2 ^ e\<close>, for \<open>m\<close> not negative.
\<close>

definition blank :: "string \<Rightarrow> bool" where
  "blank s = list_all isspace s"

definition negative :: "pyval \<Rightarrow> bool" where
  "negative v =
     (case v of
        IntVal a \<Rightarrow> a < 0
      | FloatVal (Finite m e) \<Rightarrow> m < 0
      | FloatVal NegInf \<Rightarrow> True
      | _ \<Rightarrow> False)"

definition whole :: "int \<Rightarrow> int \<Rightarrow> int \<Rightarrow> bool" where
  "whole z m e =
     (if 0 \<le> e then z = m * 2 ^ nat e
      else z * 2 ^ nat (- e) \<le> m \<and> m < (z + 1) * 2 ^ nat (- e))"

section \<open>Example states\<close>

definition blank_world :: world where
  "blank_world =
     \<lparr>student_at = (\<lambda>_. \<lparr>Student.name = [], age = 0, email = [], studentid = [], courses = []\<rparr>),
      instructor_at =
        (\<lambda>_. \<lparr>Instructor.name = [], age = 0, email = [], instructorid = [], courses = []\<rparr>),
      course_at = (\<lambda>_. \<lparr>courseid = [], coursename = [], instructor = None, students = []\<rparr>),
      system = \<lparr>SchoolSystem.students = [], instructors = [], courses = []\<rparr>\<rparr>"

text \<open>
  A heap holding the objects \<open>Student("John Doe", 20, "doe@x.com", "S1")\<close>,
  \<open>Student("Jane Roe", 21, "roe@x.com", "S1")\<close>, \<open>Instructor("Ada Lovelace", 40, "ada@x.com", "I1")\<close>,
  \<open>Instructor("Bob Boole", 50, "bob@x.com", "I2")\<close> and \<open>Course("C1", "Algorithms")\<close>, and an
  empty \<open>SchoolSystem\<close>.
\<close>

definition school_heap :: world where
  "school_heap =
     blank_world
       \<lparr>student_at := (student_at blank_world)
          (1 := \<lparr>Student.name = ''John Doe'', age = 20, email = ''doe@x.com'', studentid = ''S1'',
                 courses = []\<rparr>,
           2 := \<lparr>Student.name = ''Jane Roe'', age = 21, email = ''roe@x.com'', studentid = ''S1'',
                 courses = []\<rparr>),
        instructor_at := (instructor_at blank_world)
          (1 := \<lparr>Instructor.name = ''Ada Lovelace'', age = 40, email = ''ada@x.com'',
                 instructorid = ''I1'', courses = []\<rparr>,
           2 := \<lparr>Instructor.name = ''Bob Boole'', age = 50, email = ''bob@x.com'',
                 instructorid = ''I2'', courses = []\<rparr>),
        course_at := (course_at blank_world)
          (1 := \<lparr>courseid = ''C1'', coursename = ''Algorithms'', instructor = None, students = []\<rparr>)\<rparr>"

text \<open>The system after adding student 1, both instructors and the course.\<close>

definition school_added :: world where
  "school_added =
     snd (addcourse (snd (addinstructor (snd (addinstructor (snd (addstudent school_heap 1)) 1)) 2)) 1)"

text \<open>Then \<open>assign("I1", "C1")\<close>, and then \<open>assign("I2", "C1")\<close>.\<close>

definition school_assigned :: world where
  "school_assigned = snd (assign school_added ''I1'' ''C1'')"

definition school_reassigned :: world where
  "school_reassigned = snd (assign school_assigned ''I2'' ''C1'')"

definition blank_campus :: campus where
  "blank_campus =
     \<lparr>student_obj = (\<lambda>_. \<lparr>SM_Student.name = [], age = 0, email = [], student_id = [],
                            registered_courses = []\<rparr>),
      instructor_obj = (\<lambda>_. \<lparr>SM_Instructor.name = [], age = 0, email = [], instructor_id = [],
                               assigned_courses = []\<rparr>),
      course_obj = (\<lambda>_. \<lparr>SM_Course.course_id = [], course_name = [], instructor = None,
                           enrolled_students = []\<rparr>),
      next_ref = 0,
      sms = \<lparr>SchoolManagementSystem.students = [], instructors = [], courses = []\<rparr>\<rparr>"

text \<open>
  John Doe and Jane Doe, built with different ids and one email address, both added to a
  \<open>SchoolManagementSystem\<close>.
\<close>

definition john_doe :: SM_Student where
  "john_doe = \<lparr>SM_Student.name = ''John Doe'', age = 20, email = ''doe@x.com'',
               student_id = ''S1'', registered_courses = []\<rparr>"



text \<open>
  Jane Roe, built with the id of John Doe; a \<open>SchoolManagementSystem\<close> holding John Doe,
  and Jane Roe built but not yet added.
\<close>

definition jane_roe :: SM_Student where
  "jane_roe = \<lparr>SM_Student.name = ''Jane Roe'', age = 21, email = ''roe@x.com'',
               student_id = ''S1'', registered_courses = []\<rparr>"

definition campus_john :: campus where
  "campus_john =
     (case new_student blank_campus john_doe of
        (s, g) \<Rightarrow> snd (new_student (system_add_student g s) jane_roe))"


definition empty_database :: database where
  "empty_database =
     \<lparr>students = [], instructors = [], courses = [], student_course_registrations = [],
      sqlite_sequence = 0\<rparr>"

text \<open>A store with one student, one course and the registration of the one for the other.\<close>

definition database_s1_c1 :: database where
  "database_s1_c1 =
     \<lparr>students = [\<lparr>students_row.student_id = ''S1'', name = ''John Doe'', age = 20,
                    email = ''doe@x.com''\<rparr>],
      instructors = [],
      courses = [\<lparr>courses_row.course_id = ''C1'', course_name = ''Algorithms'',
                   instructor_id = None\<rparr>],
      student_course_registrations = [\<lparr>rowid = 1, student_id = ''S1'', course_id = ''C1''\<rparr>],
      sqlite_sequence = 1\<rparr>"

text \<open>A store with the instructor Ada Lovelace and the course Algorithms, which she teaches.\<close>

definition database_ada :: database where
  "database_ada =
     \<lparr>students = [],
      instructors = [\<lparr>instructors_row.instructor_id = ''I1'', name = ''Ada Lovelace'', age = 40,
                       email = ''ada@x.com''\<rparr>],
      courses = [\<lparr>courses_row.course_id = ''C1'', course_name = ''Algorithms'',
                   instructor_id = Some ''I1''\<rparr>],
      student_course_registrations = [],
      sqlite_sequence = 0\<rparr>"

text \<open>
  John Doe registered for a course object that was never added to the system: the system
  holds the student only.
\<close>

definition campus_stray :: campus where
  "campus_stray =
     blank_campus
       \<lparr>student_obj := (student_obj blank_campus)
          (0 := \<lparr>SM_Student.name = ''John Doe'', age = 20, email = ''doe@x.com'',
                 student_id = ''S1'', registered_courses = [0]\<rparr>),
        course_obj := (course_obj blank_campus)
          (0 := \<lparr>SM_Course.course_id = ''C1'', course_name = ''Algorithms'',
                 instructor = None, enrolled_students = [0]\<rparr>),
        next_ref := 1,
        sms := \<lparr>SchoolManagementSystem.students = [0], instructors = [], courses = []\<rparr>\<rparr>"

text \<open>
  Two instructors and a course added to a \<open>SchoolManagementSystem\<close>, the course then assigned
  to the first instructor and after that to the second.
\<close>

definition campus_reassigned :: campus where
  "campus_reassigned =
     assign_course
       (assign_course
          (blank_campus
             \<lparr>instructor_obj := (instructor_obj blank_campus)
                (0 := \<lparr>SM_Instructor.name = ''Ada Lovelace'', age = 40, email = ''ada@x.com'',
                       instructor_id = ''I1'', assigned_courses = []\<rparr>,
                 1 := \<lparr>SM_Instructor.name = ''Bob Boole'', age = 50, email = ''bob@x.com'',
                       instructor_id = ''I2'', assigned_courses = []\<rparr>),
              course_obj := (course_obj blank_campus)
                (0 := \<lparr>SM_Course.course_id = ''C1'', course_name = ''Algorithms'',
                       instructor = None, enrolled_students = []\<rparr>),
              next_ref := 2,
              sms := \<lparr>SchoolManagementSystem.students = [], instructors = [0, 1],
                      courses = [0]\<rparr>\<rparr>)
          0 0)
       1 0"

section \<open>Adding entities\<close>

text \<open>
  C4 (amended). In \<open>school.py\<close>, \<open>addstudent\<close>, \<open>addinstructor\<close> and \<open>addcourse\<close> return
  \<open>False\<close> and leave heap and system as they were when the system already holds an object
  of the kind with the same id, and otherwise append the object and return \<open>True\<close>. In
  \<open>school_management.py\<close>, \<open>add_student\<close>, \<open>add_instructor\<close> and \<open>add_course\<close> append the
  object whatever the system holds.
\<close>

theorem add_checks_id_only_in_school:
  "addstudent w s =
     (if \<exists>x \<in> set (SchoolSystem.students (system w)).
           studentid (student_at w x) = studentid (student_at w s)
      then (False, w)
      else (True, w\<lparr>system := (system w)
              \<lparr>SchoolSystem.students := SchoolSystem.students (system w) @ [s]\<rparr>\<rparr>))
   \<and> addinstructor w i =
     (if \<exists>x \<in> set (SchoolSystem.instructors (system w)).
           instructorid (instructor_at w x) = instructorid (instructor_at w i)
      then (False, w)
      else (True, w\<lparr>system := (system w)
              \<lparr>SchoolSystem.instructors := SchoolSystem.instructors (system w) @ [i]\<rparr>\<rparr>))
   \<and> addcourse w c =
     (if \<exists>x \<in> set (SchoolSystem.courses (system w)).
           courseid (course_at w x) = courseid (course_at w c)
      then (False, w)
      else (True, w\<lparr>system := (system w)
              \<lparr>SchoolSystem.courses := SchoolSystem.courses (system w) @ [c]\<rparr>\<rparr>))
   \<and> system_add_student g r =
       g\<lparr>sms := (sms g)\<lparr>SchoolManagementSystem.students :=
                           SchoolManagementSystem.students (sms g) @ [r]\<rparr>\<rparr>
   \<and> system_add_instructor g r =
       g\<lparr>sms := (sms g)\<lparr>SchoolManagementSystem.instructors :=
                           SchoolManagementSystem.instructors (sms g) @ [r]\<rparr>\<rparr>
   \<and> system_add_course g r =
       g\<lparr>sms := (sms g)\<lparr>SchoolManagementSystem.courses :=
                           SchoolManagementSystem.courses (sms g) @ [r]\<rparr>\<rparr>"
  by (auto simp: addstudent_def findstudent_def addinstructor_def findinstructor_def
      addcourse_def findcourse_def find_None_iff system_add_student_def
      system_add_instructor_def system_add_course_def)

theorem add_checks_id_only_in_school_witness:
  "addstudent school_added 2 = (False, school_added)
   \<and> Student.name (student_at (snd (addstudent school_added 2)) 1) = ''John Doe''
   \<and> SchoolSystem.students (system (snd (addstudent school_heap 1))) = [1]
   \<and> fst (addstudent school_heap 1)"
  using add_checks_id_only_in_school [of school_added 2]
    add_checks_id_only_in_school [of school_heap 1]
  by (simp add: school_added_def school_heap_def blank_world_def addstudent_def findstudent_def
      addinstructor_def findinstructor_def addcourse_def findcourse_def)

text \<open>
  C4 as stated fails for \<open>SchoolManagementSystem.add_student\<close>: the system holds John Doe
  under the id S1, and adding Jane Roe, built with the same id, appends her.
\<close>

theorem system_add_student_duplicate_id:
  "find_student_by_id campus_john ''S1'' = Some 0
   \<and> SM_Student.student_id (student_obj campus_john 1) = ''S1''
   \<and> SchoolManagementSystem.students (sms campus_john) = [0]
   \<and> SchoolManagementSystem.students (sms (system_add_student campus_john 1)) = [0, 1]"
  by (simp add: campus_john_def blank_campus_def john_doe_def jane_roe_def new_student_def
      system_add_student_def find_student_by_id_def)

section \<open>Registering a student\<close>

text \<open>
  \<open>SchoolSystem.register\<close> of \<open>school.py\<close> refuses an unknown id and a student already in
  the course's list, and otherwise links both sides, in every state.
\<close>

lemma register_refuses:
  "findstudent w sid = None \<or> findcourse w cid = None
   \<or> (\<exists>s c. findstudent w sid = Some s \<and> findcourse w cid = Some c
             \<and> s \<in> set (Course.students (course_at w c)))
   \<Longrightarrow> register w sid cid = (False, w)"
  by (auto simp: register_def split: option.splits)

lemma register_links:
  assumes "findstudent w sid = Some s" and "findcourse w cid = Some c"
    and "s \<notin> set (Course.students (course_at w c))"
  shows "fst (register w sid cid)"
    and "Course.students (course_at (snd (register w sid cid)) c) = Course.students (course_at w c) @ [s]"
    and "c \<in> set (Student.courses (student_at (snd (register w sid cid)) s))"
    and "distinct (Student.courses (student_at w s))
         \<Longrightarrow> distinct (Student.courses (student_at (snd (register w sid cid)) s))"
    and "system (snd (register w sid cid)) = system w"
  using assms by (auto simp: register_def Student_enroll_def Course_addstudent_def)

text \<open>
  C5. \<open>DatabaseManager.register_student_to_course\<close> is documented to validate the foreign
  keys, and returns \<open>False\<close> only on an exception. On a store with no student and no
  course it inserts the row for the pair S1, C1 and returns \<open>True\<close>.
\<close>

theorem register_student_to_course_unknown_ids:
  "register_student_to_course empty_database ''S1'' ''C1'' =
     (True, empty_database
        \<lparr>student_course_registrations :=
           [\<lparr>rowid = 1, student_id = ''S1'', course_id = ''C1''\<rparr>],
         sqlite_sequence := 1\<rparr>)"
  by (simp add: register_student_to_course_def foreign_keys_def empty_database_def)

text \<open>With \<open>PRAGMA foreign_keys\<close> set, the same statement raises \<open>IntegrityError\<close>.\<close>

lemma insert_registration_enforced:
  "sid \<notin> set (map students_row.student_id (students db))
   \<or> cid \<notin> set (map courses_row.course_id (courses db))
   \<Longrightarrow> execute True db (InsertRegistration sid cid) = Inl IntegrityError"
  by auto

section \<open>Assigning an instructor\<close>

text \<open>
  C6. After \<open>assign("I1", "C1")\<close> and \<open>assign("I2", "C1")\<close> on a system built with the add
  operations, the course refers to instructor I2 (reference 2), and the list of instructor
  I1 (reference 1) still holds the course.
\<close>

theorem assign_keeps_old_link:
  "SchoolSystem.instructors (system school_reassigned) = [1, 2]
   \<and> SchoolSystem.courses (system school_reassigned) = [1]
   \<and> Course.instructor (course_at school_reassigned 1) = Some 2
   \<and> Instructor.courses (instructor_at school_reassigned 2) = [1]
   \<and> Instructor.courses (instructor_at school_reassigned 1) = [1]"
  by (simp add: school_reassigned_def school_assigned_def school_added_def school_heap_def
      blank_world_def assign_def addcourse_def addinstructor_def addstudent_def findstudent_def
      findinstructor_def findcourse_def Instructor_take_def)

section \<open>Searching\<close>

lemma dropWhile_all: "\<forall>c \<in> set q. P c \<Longrightarrow> dropWhile P q = []"
  by (induction q) auto

lemma strip_blank: "\<forall>c \<in> set q. isspace c \<Longrightarrow> strip q = []"
  by (simp add: strip_def dropWhile_all)

lemma str_in_Nil [simp]: "str_in [] x"
  by (induction x) auto

lemma any_contains_Nil [simp]: "any_contains [] (x # xs)"
  by (auto simp: any_contains_def)

lemma query_blank: "\<forall>c \<in> set q. isspace c \<Longrightarrow> query (Some q) = []"
  by (simp add: query_def strip_blank lower_def)

lemma query_None: "query None = []"
  by (simp add: query_def strip_def lower_def)

text \<open>
  C9. \<open>search\<close> with \<open>None\<close>, the empty string or a string of white space returns one row
  for every student, then one for every instructor, then one for every course.
\<close>

theorem search_blank_lists_everything:
  assumes "q = None \<or> (\<exists>t. q = Some t \<and> (\<forall>c \<in> set t. isspace c))"
  shows "search w q =
           map (student_result w) (SchoolSystem.students (system w)) @
           map (instructor_result w) (SchoolSystem.instructors (system w)) @
           map (course_result w) (SchoolSystem.courses (system w))"
proof -
  from assms have "query q = []"
    by (auto simp: query_blank query_None)
  then show ?thesis
    by (simp add: search_def student_fields_def instructor_fields_def course_fields_def)
qed

theorem search_blank_lists_everything_witness:
  "search school_added (Some [CHR 0x09, CHR 0x20, CHR 0x85, CHR 0xA0]) =
     [(''Student'', ''John Doe'', ''S1'', []),
      (''Instructor'', ''Ada Lovelace'', ''I1'', []),
      (''Instructor'', ''Bob Boole'', ''I2'', []),
      (''Course'', ''Algorithms'', ''C1'', ''Instructor: None; Students: '')]"
proof -
  have "Some [CHR 0x09, CHR 0x20, CHR 0x85, CHR 0xA0] = None
      \<or> (\<exists>t. Some [CHR 0x09, CHR 0x20, CHR 0x85, CHR 0xA0] = Some t
            \<and> (\<forall>c \<in> set t. isspace c))"
    by (simp add: isspace_def)
  from search_blank_lists_everything [OF this, of school_added] show ?thesis
    by (simp add: school_added_def school_heap_def blank_world_def addcourse_def
        addinstructor_def addstudent_def findstudent_def findinstructor_def findcourse_def
        student_result_def instructor_result_def course_result_def inst_name_def)
qed

text \<open>
  The white space that \<open>search\<close> strips is that of \<open>str.isspace\<close>: the code points 9 to 13,
  0x1C to 0x1F, 0x20, 0x85 and 0xA0, and nothing else below 256.
\<close>

lemma isspace_code_points:
  "isspace c = (of_char c \<in> {9, 10, 11, 12, 13, 28, 29, 30, 31, 32, 133, 160 :: nat})"
  by (auto simp: isspace_def Let_def)

section \<open>Updating a row\<close>

lemma map_untouched: "\<forall>x \<in> set xs. \<not> P x \<Longrightarrow> map (\<lambda>x. if P x then f x else x) xs = xs"
  by (induction xs) auto

lemma filter_none: "\<forall>x \<in> set xs. \<not> P x \<Longrightarrow> filter P xs = []"
  by (induction xs) auto

lemma update_student_no_row:
  assumes "sid \<notin> set (map students_row.student_id (students db))"
    and "nm \<noteq> None \<or> ag \<noteq> None \<or> em \<noteq> None"
  shows "update_student db sid nm ag em = (False, db)"
proof -
  from assms(1) have none: "\<forall>r \<in> set (students db). \<not> students_row.student_id r = sid"
    by auto
  show ?thesis using assms(2)
    by (auto simp: update_student_def Let_def filter_none [OF none] map_untouched [OF none])
qed

lemma update_instructor_no_row:
  assumes "iid \<notin> set (map instructors_row.instructor_id (instructors db))"
    and "nm \<noteq> None \<or> ag \<noteq> None \<or> em \<noteq> None"
  shows "update_instructor db iid nm ag em = (False, db)"
proof -
  from assms(1) have none: "\<forall>r \<in> set (instructors db). \<not> instructors_row.instructor_id r = iid"
    by auto
  show ?thesis using assms(2)
    by (auto simp: update_instructor_def Let_def filter_none [OF none] map_untouched [OF none])
qed

lemma update_course_no_row:
  assumes "cid \<notin> set (map courses_row.course_id (courses db))"
    and "cn \<noteq> None \<or> ins \<noteq> None"
  shows "update_course db cid cn ins = (False, db)"
proof -
  from assms(1) have none: "\<forall>r \<in> set (courses db). \<not> courses_row.course_id r = cid"
    by auto
  show ?thesis using assms(2)
    by (auto simp: update_course_def Let_def filter_none [OF none] map_untouched [OF none])
qed

text \<open>
  C10. With no field supplied, \<open>update_student\<close>, \<open>update_instructor\<close> and \<open>update_course\<close>
  return \<open>True\<close> and leave the store as it was, whether or not a row has the id. With a
  field supplied and no row with the id, they return \<open>False\<close> and leave the store as it was.
\<close>

theorem update_without_fields_or_row:
  "update_student db sid None None None = (True, db)
   \<and> update_instructor db iid None None None = (True, db)
   \<and> update_course db cid None None = (True, db)
   \<and> ((nm \<noteq> None \<or> ag \<noteq> None \<or> em \<noteq> None)
        \<and> sid \<notin> set (map students_row.student_id (students db))
      \<longrightarrow> update_student db sid nm ag em = (False, db))
   \<and> ((nm \<noteq> None \<or> ag \<noteq> None \<or> em \<noteq> None)
        \<and> iid \<notin> set (map instructors_row.instructor_id (instructors db))
      \<longrightarrow> update_instructor db iid nm ag em = (False, db))
   \<and> ((cn \<noteq> None \<or> ins \<noteq> None)
        \<and> cid \<notin> set (map courses_row.course_id (courses db))
      \<longrightarrow> update_course db cid cn ins = (False, db))"
  using update_student_no_row update_instructor_no_row update_course_no_row
  by (simp add: update_student_def update_instructor_def update_course_def)

theorem update_without_fields_or_row_witness:
  "update_student database_s1_c1 ''S9'' None None None = (True, database_s1_c1)
   \<and> ''S9'' \<notin> set (map students_row.student_id (students database_s1_c1))
   \<and> update_student database_s1_c1 ''S9'' (Some ''Jim'') None None = (False, database_s1_c1)
   \<and> ''I9'' \<notin> set (map instructors_row.instructor_id (instructors database_s1_c1))
   \<and> update_instructor database_s1_c1 ''I9'' None (Some 30) None = (False, database_s1_c1)
   \<and> ''C9'' \<notin> set (map courses_row.course_id (courses database_s1_c1))
   \<and> update_course database_s1_c1 ''C9'' None (Some ''I1'') = (False, database_s1_c1)"
  using update_without_fields_or_row [of database_s1_c1 "''S9''" "''I9''" "''C9''"
      "Some ''Jim''" None None None "Some ''I1''"]
    update_without_fields_or_row [of database_s1_c1 "''S9''" "''I9''" "''C9''"
      None "Some 30" None None "Some ''I1''"]
  by (simp add: database_s1_c1_def)

section \<open>Running statements\<close>









lemma for_each_append:
  "for_each body (xs @ ys) db =
     (case for_each body xs db of Inl e \<Rightarrow> Inl e | Inr db' \<Rightarrow> for_each body ys db')"
  by (induction xs arbitrary: db) (auto split: sum.splits)














section \<open>Deleting a course\<close>

text \<open>
  In the graph of \<open>school.py\<close>, \<open>removecourse\<close> takes the course out of the list of every
  student of the system, out of the list of its instructor and out of the system's list.
\<close>

lemma drop_course_frame:
  "system (drop_course c w s) = system w"
  "instructor_at (drop_course c w s) = instructor_at w"
  "course_at (drop_course c w s) = course_at w"
  by (simp_all add: drop_course_def)

lemma foldl_drop_course_frame:
  "system (foldl (drop_course c) w ss) = system w
   \<and> instructor_at (foldl (drop_course c) w ss) = instructor_at w
   \<and> course_at (foldl (drop_course c) w ss) = course_at w"
  by (induction ss arbitrary: w) (simp_all add: drop_course_frame)

lemma drop_course_absent:
  "c \<notin> set (Student.courses (student_at w s))
   \<Longrightarrow> c \<notin> set (Student.courses (student_at (drop_course c w s') s))"
  by (auto simp: drop_course_def dest: notin_set_remove1)

lemma drop_course_distinct:
  "distinct (Student.courses (student_at w s))
   \<Longrightarrow> distinct (Student.courses (student_at (drop_course c w s') s))"
  by (auto simp: drop_course_def)

lemma drop_course_removes:
  "distinct (Student.courses (student_at w s))
   \<Longrightarrow> c \<notin> set (Student.courses (student_at (drop_course c w s) s))"
  by (simp add: drop_course_def)

lemma foldl_drop_course_absent:
  "c \<notin> set (Student.courses (student_at w s))
   \<Longrightarrow> c \<notin> set (Student.courses (student_at (foldl (drop_course c) w ss) s))"
  by (induction ss arbitrary: w) (simp_all add: drop_course_absent)

lemma foldl_drop_course_removes:
  "s \<in> set ss \<Longrightarrow> distinct (Student.courses (student_at w s))
   \<Longrightarrow> c \<notin> set (Student.courses (student_at (foldl (drop_course c) w ss) s))"
proof (induction ss arbitrary: w)
  case Nil
  then show ?case by simp
next
  case (Cons a ss)
  show ?case
  proof (cases "a = s")
    case True
    with Cons.prems have "c \<notin> set (Student.courses (student_at (drop_course c w a) s))"
      by (simp add: drop_course_removes)
    then show ?thesis
      by (simp add: foldl_drop_course_absent)
  next
    case False
    with Cons.prems have "s \<in> set ss" by simp
    moreover from Cons.prems have "distinct (Student.courses (student_at (drop_course c w a) s))"
      by (simp add: drop_course_distinct)
    ultimately show ?thesis
      using Cons.IH by simp
  qed
qed

lemma detach_instructor_frame:
  "system (detach_instructor c w) = system w"
  "student_at (detach_instructor c w) = student_at w"
  "course_at (detach_instructor c w) = course_at w"
  by (simp_all add: detach_instructor_def split: option.splits)

lemma detach_instructor_removes:
  "Course.instructor (course_at w c) = Some i
   \<Longrightarrow> distinct (Instructor.courses (instructor_at w i))
   \<Longrightarrow> c \<notin> set (Instructor.courses (instructor_at (detach_instructor c w) i))"
  by (simp add: detach_instructor_def)

lemma removecourse_cascade:
  assumes found: "findcourse w cid = Some c"
  shows "fst (removecourse w cid)"
    and "s \<in> set (SchoolSystem.students (system w))
         \<Longrightarrow> distinct (Student.courses (student_at w s))
         \<Longrightarrow> c \<notin> set (Student.courses (student_at (snd (removecourse w cid)) s))"
    and "Course.instructor (course_at w c) = Some i
         \<Longrightarrow> distinct (Instructor.courses (instructor_at w i))
         \<Longrightarrow> c \<notin> set (Instructor.courses (instructor_at (snd (removecourse w cid)) i))"
    and "distinct (SchoolSystem.courses (system w))
         \<Longrightarrow> c \<notin> set (SchoolSystem.courses (system (snd (removecourse w cid))))"
proof -
  show "fst (removecourse w cid)"
    using found by (simp add: removecourse_def Let_def)
  show "c \<notin> set (Student.courses (student_at (snd (removecourse w cid)) s))"
    if "s \<in> set (SchoolSystem.students (system w))"
      and "distinct (Student.courses (student_at w s))"
    using found that
    by (simp add: removecourse_def Let_def detach_instructor_frame foldl_drop_course_removes)
  show "c \<notin> set (Instructor.courses (instructor_at (snd (removecourse w cid)) i))"
    if "Course.instructor (course_at w c) = Some i"
      and "distinct (Instructor.courses (instructor_at w i))"
    using found that
    by (simp add: removecourse_def Let_def detach_instructor_removes foldl_drop_course_frame)
  show "c \<notin> set (SchoolSystem.courses (system (snd (removecourse w cid))))"
    if "distinct (SchoolSystem.courses (system w))"
    using found that
    by (simp add: removecourse_def Let_def detach_instructor_frame foldl_drop_course_frame)
qed

text \<open>
  In the store, the schema gives \<open>student_course_registrations.course_id\<close> the action
  \<open>ON DELETE CASCADE\<close>. On a connection that enforces foreign keys, deleting a course
  removes the registrations that refer to it.
\<close>

lemma delete_courses_enforced:
  assumes "execute True db (DeleteCourses (Some cid)) = Inr (db', n)"
    and "cid \<in> set (map courses_row.course_id (courses db))"
  shows "cid \<notin> set (map registrations_row.course_id (student_course_registrations db'))"
    and "cid \<notin> set (map courses_row.course_id (courses db'))"
  using assms by (auto simp: Let_def selected_def)

text \<open>
  C2. \<open>DatabaseManager.delete_course\<close> is documented to remove the course record and all
  associated student registrations. On the store with student S1, course C1 and the
  registration of S1 for C1, it deletes the course row, returns \<open>True\<close>, and leaves the
  registration row in the table.
\<close>

theorem delete_course_keeps_registrations:
  "delete_course database_s1_c1 ''C1'' = (True, database_s1_c1\<lparr>courses := []\<rparr>)
   \<and> student_course_registrations (snd (delete_course database_s1_c1 ''C1''))
       = [\<lparr>rowid = 1, student_id = ''S1'', course_id = ''C1''\<rparr>]"
  by (simp add: delete_course_def foreign_keys_def database_s1_c1_def Let_def selected_def)

section \<open>Substring search\<close>

lemma startswith_iff: "startswith x q = (\<exists>v. x = q @ v)"
  by (induction x q rule: startswith.induct) auto

lemma str_in_iff: "str_in q x = (\<exists>u v. x = u @ q @ v)"
proof (induction x)
  case Nil
  then show ?case by auto
next
  case (Cons d x)
  show ?case
  proof
    assume "str_in q (d # x)"
    then consider "startswith (d # x) q" | "str_in q x" by auto
    then show "\<exists>u v. d # x = u @ q @ v"
    proof cases
      case 1
      then obtain v where "d # x = [] @ q @ v" by (auto simp: startswith_iff)
      then show ?thesis by blast
    next
      case 2
      with Cons.IH obtain u v where "x = u @ q @ v" by blast
      then have "d # x = (d # u) @ q @ v" by simp
      then show ?thesis by blast
    qed
  next
    assume "\<exists>u v. d # x = u @ q @ v"
    then obtain u v where e: "d # x = u @ q @ v" by blast
    show "str_in q (d # x)"
    proof (cases u)
      case Nil
      with e have "startswith (d # x) q" by (auto simp: startswith_iff)
      then show ?thesis by simp
    next
      case (Cons a u')
      with e have "x = u' @ q @ v" by simp
      with Cons.IH have "str_in q x" by blast
      then show ?thesis by simp
    qed
  qed
qed

lemma endswith_iff: "endswith x q = (\<exists>u. x = u @ q)"
proof -
  have "(\<exists>v. rev x = rev q @ v) = (\<exists>u. x = u @ q)"
  proof
    assume "\<exists>v. rev x = rev q @ v"
    then obtain v where "rev x = rev q @ v" by blast
    then have "rev (rev x) = rev (rev q @ v)" by simp
    then have "x = rev v @ q" by simp
    then show "\<exists>u. x = u @ q" by blast
  next
    assume "\<exists>u. x = u @ q"
    then obtain u where "x = u @ q" by blast
    then have "rev x = rev q @ rev u" by simp
    then show "\<exists>v. rev x = rev q @ v" by blast
  qed
  then show ?thesis
    by (simp add: endswith_def startswith_iff)
qed

lemma patternCompare_percent:
  "patternCompare (CHR ''%'' # ps) x = (\<exists>u v. x = u @ v \<and> patternCompare ps v)"
proof (induction x)
  case Nil
  then show ?case by simp
next
  case (Cons c cs)
  have "(\<exists>u v. c # cs = u @ v \<and> patternCompare ps v)
      = (patternCompare ps (c # cs) \<or> (\<exists>u v. cs = u @ v \<and> patternCompare ps v))"
  proof
    assume "\<exists>u v. c # cs = u @ v \<and> patternCompare ps v"
    then obtain u v where e: "c # cs = u @ v" and l: "patternCompare ps v" by blast
    show "patternCompare ps (c # cs) \<or> (\<exists>u v. cs = u @ v \<and> patternCompare ps v)"
    proof (cases u)
      case Nil
      with e l show ?thesis by simp
    next
      case (Cons a u')
      with e have "cs = u' @ v" by simp
      with l show ?thesis by blast
    qed
  next
    assume "patternCompare ps (c # cs) \<or> (\<exists>u v. cs = u @ v \<and> patternCompare ps v)"
    then show "\<exists>u v. c # cs = u @ v \<and> patternCompare ps v"
    proof
      assume "patternCompare ps (c # cs)"
      then have "c # cs = [] @ c # cs \<and> patternCompare ps (c # cs)" by simp
      then show ?thesis by blast
    next
      assume "\<exists>u v. cs = u @ v \<and> patternCompare ps v"
      then obtain u v where "cs = u @ v" and "patternCompare ps v" by blast
      then have "c # cs = (c # u) @ v \<and> patternCompare ps v" by simp
      then show ?thesis by blast
    qed
  qed
  with Cons.IH show ?case by simp
qed

lemma patternCompare_all: "patternCompare ''%'' x"
  by (simp add: patternCompare_percent)

lemma patternCompare_literal:
  "\<forall>c \<in> set t. c \<noteq> CHR ''%'' \<and> c \<noteq> CHR ''_''
   \<Longrightarrow> patternCompare (t @ ps) x = (\<exists>u v. x = u @ v \<and> nocase u = nocase t \<and> patternCompare ps v)"
proof (induction t arbitrary: x)
  case Nil
  then show ?case by (simp add: nocase_def)
next
  case (Cons p t)
  then have p: "p \<noteq> CHR ''%''" "p \<noteq> CHR ''_''"
    and t: "\<forall>c \<in> set t. c \<noteq> CHR ''%'' \<and> c \<noteq> CHR ''_''"
    by auto
  show ?case
  proof (cases x)
    case Nil
    with p show ?thesis by (simp add: nocase_def)
  next
    case (Cons c cs)
    have "patternCompare ((p # t) @ ps) (c # cs)
        = (sqlite3Tolower p = sqlite3Tolower c \<and> patternCompare (t @ ps) cs)"
      using p by simp
    also have "\<dots> = (sqlite3Tolower p = sqlite3Tolower c
        \<and> (\<exists>u v. cs = u @ v \<and> nocase u = nocase t \<and> patternCompare ps v))"
      using Cons.IH [OF t] by simp
    also have "\<dots> = (\<exists>u v. c # cs = u @ v \<and> nocase u = nocase (p # t) \<and> patternCompare ps v)"
    proof
      assume "sqlite3Tolower p = sqlite3Tolower c
        \<and> (\<exists>u v. cs = u @ v \<and> nocase u = nocase t \<and> patternCompare ps v)"
      then obtain u v where "sqlite3Tolower p = sqlite3Tolower c" "cs = u @ v"
        "nocase u = nocase t" "patternCompare ps v" by blast
      then have "c # cs = (c # u) @ v \<and> nocase (c # u) = nocase (p # t) \<and> patternCompare ps v"
        by (simp add: nocase_def)
      then show "\<exists>u v. c # cs = u @ v \<and> nocase u = nocase (p # t) \<and> patternCompare ps v"
        by blast
    next
      assume "\<exists>u v. c # cs = u @ v \<and> nocase u = nocase (p # t) \<and> patternCompare ps v"
      then obtain u v where e: "c # cs = u @ v" and l: "nocase u = nocase (p # t)"
        and k: "patternCompare ps v" by blast
      from l obtain a u' where u: "u = a # u'" by (cases u) (auto simp: nocase_def)
      with e l have "a = c" "cs = u' @ v" "sqlite3Tolower p = sqlite3Tolower c"
        "nocase u' = nocase t"
        by (auto simp: nocase_def)
      with k show "sqlite3Tolower p = sqlite3Tolower c
        \<and> (\<exists>u v. cs = u @ v \<and> nocase u = nocase t \<and> patternCompare ps v)"
        by blast
    qed
    finally show ?thesis using Cons by simp
  qed
qed

lemma nocase_append_split:
  "(nocase x = a @ b @ c) = (\<exists>u v w. x = u @ v @ w \<and> nocase u = a \<and> nocase v = b \<and> nocase w = c)"
proof
  assume "nocase x = a @ b @ c"
  then have "map sqlite3Tolower x = a @ (b @ c)"
    by (simp add: nocase_def)
  then obtain u r where x: "x = u @ r" and u: "map sqlite3Tolower u = a"
    and r: "map sqlite3Tolower r = b @ c"
    using map_eq_append_conv [of sqlite3Tolower x a "b @ c"] by metis
  from r obtain v w where "r = v @ w" "map sqlite3Tolower v = b" "map sqlite3Tolower w = c"
    using map_eq_append_conv [of sqlite3Tolower r b c] by metis
  with x u have "x = u @ v @ w \<and> nocase u = a \<and> nocase v = b \<and> nocase w = c"
    by (simp add: nocase_def)
  then show "\<exists>u v w. x = u @ v @ w \<and> nocase u = a \<and> nocase v = b \<and> nocase w = c"
    by blast
next
  assume "\<exists>u v w. x = u @ v @ w \<and> nocase u = a \<and> nocase v = b \<and> nocase w = c"
  then show "nocase x = a @ b @ c"
    by (auto simp: nocase_def)
qed

lemma nocase_append_split2:
  "(nocase x = a @ b) = (\<exists>u v. x = u @ v \<and> nocase u = a \<and> nocase v = b)"
  using nocase_append_split [of x a b "[]"] by (simp add: nocase_def)

lemma c_string_no_nul: "CHR 0x00 \<notin> set s \<Longrightarrow> c_string s = s"
  by (induction s) (auto simp: c_string_def)

lemma c_string_nul: "CHR 0x00 \<in> set s \<Longrightarrow> c_string (s @ r) = c_string s"
  by (induction s) (auto simp: c_string_def)

lemma c_string_percent: "CHR 0x00 \<notin> set s \<Longrightarrow> c_string (s @ ''%'') = s @ ''%''"
  by (induction s) (auto simp: c_string_def)

lemma term_matches_substring:
  assumes "\<forall>c \<in> set t. c \<noteq> CHR ''%'' \<and> c \<noteq> CHR ''_''" and "CHR 0x00 \<notin> set t"
  shows "term_matches t x = str_in (nocase t) (nocase (c_string x))"
proof -
  have "c_string (search_pattern t) = CHR ''%'' # c_string (t @ ''%'')"
    by (simp add: search_pattern_def c_string_def)
  then have "term_matches t x = patternCompare (CHR ''%'' # t @ ''%'') (c_string x)"
    using c_string_percent [OF assms(2)] by (simp add: term_matches_def)
  also have "\<dots> = (\<exists>u v. c_string x = u @ v \<and> patternCompare (t @ ''%'') v)"
    by (simp add: patternCompare_percent)
  also have "\<dots> = (\<exists>u v w. c_string x = u @ v @ w \<and> nocase v = nocase t)"
    unfolding patternCompare_literal [OF assms(1)] using patternCompare_all by blast
  also have "\<dots> = str_in (nocase t) (nocase (c_string x))"
    unfolding str_in_iff nocase_append_split by blast
  finally show ?thesis .
qed

lemma term_matches_suffix:
  assumes "\<forall>c \<in> set (c_string t). c \<noteq> CHR ''%'' \<and> c \<noteq> CHR ''_''" and "CHR 0x00 \<in> set t"
  shows "term_matches t x = endswith (nocase (c_string x)) (nocase (c_string t))"
proof -
  have "c_string (search_pattern t) = CHR ''%'' # c_string (t @ ''%'')"
    by (simp add: search_pattern_def c_string_def)
  then have "c_string (search_pattern t) = CHR ''%'' # c_string t"
    using c_string_nul [OF assms(2), of "''%''"] by simp
  then have "term_matches t x = patternCompare (CHR ''%'' # c_string t) (c_string x)"
    by (simp add: term_matches_def)
  also have "\<dots> = (\<exists>u v. c_string x = u @ v \<and> patternCompare (c_string t @ []) v)"
    by (simp add: patternCompare_percent)
  also have "\<dots> = (\<exists>u v. c_string x = u @ v \<and> nocase v = nocase (c_string t))"
    unfolding patternCompare_literal [OF assms(1)] by auto
  also have "\<dots> = endswith (nocase (c_string x)) (nocase (c_string t))"
    unfolding endswith_iff nocase_append_split2 by blast
  finally show ?thesis .
qed

lemma left_join_Nil: "(courses_left_join db = []) = (courses db = [])"
proof -
  have "\<And>c. (case filter (\<lambda>i. courses_row.instructor_id c = Some (instructors_row.instructor_id i))
              (instructors db) of
         [] \<Rightarrow> [(courses_row.course_id c, courses_row.course_name c, None, None)]
       | j # js \<Rightarrow> map (\<lambda>i. (courses_row.course_id c, courses_row.course_name c,
                          Some (instructors_row.instructor_id i), Some (instructors_row.name i)))
                     (j # js)) \<noteq> []"
    by (simp split: list.splits)
  then show ?thesis
    by (cases "courses db") (auto simp: courses_left_join_def)
qed

lemma utf8_bytes_search_pattern: "utf8_bytes (search_pattern t) = utf8_bytes t + 2"
  by (simp add: utf8_bytes_def search_pattern_def)

lemma like_search_pattern:
  "like (search_pattern t) x =
     (if 49998 < utf8_bytes t then Inl OperationalError else Inr (term_matches t x))"
  by (simp add: like_def utf8_bytes_search_pattern term_matches_def)

lemma select_where_filter:
  "(\<And>r. r \<in> set rs \<Longrightarrow> cond r = Inr (P r)) \<Longrightarrow> select_where cond rs = Inr (filter P rs)"
  by (induction rs) auto

lemma select_where_error:
  "rs \<noteq> [] \<Longrightarrow> cond (hd rs) = Inl e \<Longrightarrow> select_where cond rs = Inl e"
  by (cases rs) auto

text \<open>
  C7 (amended). \<open>search\<close> of \<open>school.py\<close> returns a row for exactly the students and
  instructors whose name, email or id, lower-cased, contains the stripped and lower-cased
  query, and for exactly the courses whose course name, course id or \<open>inst_name\<close> (the name
  of the course's instructor, or the text \<open>None\<close>) does. The three search methods of the
  store look at name, id and email, and for a course at course name and course id only.
  They raise \<open>OperationalError\<close> when the table searched has a row and the term is longer
  than 49998 bytes, and otherwise return, ordered by name, the rows one of whose fields
  matches the term. For a term without the wildcards \<open>%\<close> and \<open>_\<close> before its first NUL
  character, a field matches when, read up to its first NUL and up to the case of the
  letters A to Z, it contains the term, or ends with the part of the term before its
  first NUL when the term has one.
\<close>

theorem search_examined_fields:
  "search w q =
     map (student_result w)
       (filter (\<lambda>s. str_in (query q) (lower (Student.name (student_at w s)))
                    \<or> str_in (query q) (lower (Student.email (student_at w s)))
                    \<or> str_in (query q) (lower (studentid (student_at w s))))
          (SchoolSystem.students (system w))) @
     map (instructor_result w)
       (filter (\<lambda>i. str_in (query q) (lower (Instructor.name (instructor_at w i)))
                    \<or> str_in (query q) (lower (Instructor.email (instructor_at w i)))
                    \<or> str_in (query q) (lower (instructorid (instructor_at w i))))
          (SchoolSystem.instructors (system w))) @
     map (course_result w)
       (filter (\<lambda>c. str_in (query q) (lower (coursename (course_at w c)))
                    \<or> str_in (query q) (lower (courseid (course_at w c)))
                    \<or> str_in (query q) (lower (inst_name w c)))
          (SchoolSystem.courses (system w)))
   \<and> search_students db t =
        (if students db \<noteq> [] \<and> 49998 < utf8_bytes t then Inl OperationalError
         else Inr (sort_key students_row.name
                (filter (\<lambda>r. term_matches t (students_row.name r)
                             \<or> term_matches t (students_row.student_id r)
                             \<or> term_matches t (students_row.email r))
                   (students db))))
   \<and> search_instructors db t =
        (if instructors db \<noteq> [] \<and> 49998 < utf8_bytes t then Inl OperationalError
         else Inr (sort_key instructors_row.name
                (filter (\<lambda>r. term_matches t (instructors_row.name r)
                             \<or> term_matches t (instructors_row.instructor_id r)
                             \<or> term_matches t (instructors_row.email r))
                   (instructors db))))
   \<and> search_courses db t =
        (if courses db \<noteq> [] \<and> 49998 < utf8_bytes t then Inl OperationalError
         else Inr (sort_key (\<lambda>(cid, cn, iid, inm). cn)
                (filter (\<lambda>(cid, cn, iid, inm). term_matches t cn \<or> term_matches t cid)
                   (courses_left_join db))))
   \<and> ((\<forall>c \<in> set (c_string t). c \<noteq> CHR ''%'' \<and> c \<noteq> CHR ''_'') \<longrightarrow>
        term_matches t x =
          (if CHR 0x00 \<in> set t then endswith (nocase (c_string x)) (nocase (c_string t))
           else str_in (nocase t) (nocase (c_string x))))"
proof (intro conjI)
  show "search w q =
     map (student_result w)
       (filter (\<lambda>s. str_in (query q) (lower (Student.name (student_at w s)))
                    \<or> str_in (query q) (lower (Student.email (student_at w s)))
                    \<or> str_in (query q) (lower (studentid (student_at w s))))
          (SchoolSystem.students (system w))) @
     map (instructor_result w)
       (filter (\<lambda>i. str_in (query q) (lower (Instructor.name (instructor_at w i)))
                    \<or> str_in (query q) (lower (Instructor.email (instructor_at w i)))
                    \<or> str_in (query q) (lower (instructorid (instructor_at w i))))
          (SchoolSystem.instructors (system w))) @
     map (course_result w)
       (filter (\<lambda>c. str_in (query q) (lower (coursename (course_at w c)))
                    \<or> str_in (query q) (lower (courseid (course_at w c)))
                    \<or> str_in (query q) (lower (inst_name w c)))
          (SchoolSystem.courses (system w)))"
    by (simp add: search_def any_contains_def student_fields_def instructor_fields_def
        course_fields_def)
next
  show "search_students db t =
        (if students db \<noteq> [] \<and> 49998 < utf8_bytes t then Inl OperationalError
         else Inr (sort_key students_row.name
                (filter (\<lambda>r. term_matches t (students_row.name r)
                             \<or> term_matches t (students_row.student_id r)
                             \<or> term_matches t (students_row.email r))
                   (students db))))"
  proof (cases "49998 < utf8_bytes t")
    case True
    show ?thesis
    proof (cases "students db = []")
      case True
      then show ?thesis by (simp add: search_students_def)
    next
      case False
      with \<open>49998 < utf8_bytes t\<close> have "select_where
          (\<lambda>r. sql_or (like (search_pattern t) (students_row.name r))
                  (sql_or (like (search_pattern t) (students_row.student_id r))
                     (like (search_pattern t) (students_row.email r))))
          (students db) = Inl OperationalError"
        by (intro select_where_error) (simp_all add: like_search_pattern sql_or_def)
      with False \<open>49998 < utf8_bytes t\<close> show ?thesis
        by (simp add: search_students_def)
    qed
  next
    case False
    then have "select_where
          (\<lambda>r. sql_or (like (search_pattern t) (students_row.name r))
                  (sql_or (like (search_pattern t) (students_row.student_id r))
                     (like (search_pattern t) (students_row.email r))))
          (students db)
        = Inr (filter (\<lambda>r. term_matches t (students_row.name r)
                             \<or> term_matches t (students_row.student_id r)
                             \<or> term_matches t (students_row.email r)) (students db))"
      by (intro select_where_filter) (simp add: like_search_pattern sql_or_def)
    with False show ?thesis
      by (simp add: search_students_def)
  qed
next
  show "search_instructors db t =
        (if instructors db \<noteq> [] \<and> 49998 < utf8_bytes t then Inl OperationalError
         else Inr (sort_key instructors_row.name
                (filter (\<lambda>r. term_matches t (instructors_row.name r)
                             \<or> term_matches t (instructors_row.instructor_id r)
                             \<or> term_matches t (instructors_row.email r))
                   (instructors db))))"
  proof (cases "49998 < utf8_bytes t")
    case True
    show ?thesis
    proof (cases "instructors db = []")
      case True
      then show ?thesis by (simp add: search_instructors_def)
    next
      case False
      with \<open>49998 < utf8_bytes t\<close> have "select_where
          (\<lambda>r. sql_or (like (search_pattern t) (instructors_row.name r))
                  (sql_or (like (search_pattern t) (instructors_row.instructor_id r))
                     (like (search_pattern t) (instructors_row.email r))))
          (instructors db) = Inl OperationalError"
        by (intro select_where_error) (simp_all add: like_search_pattern sql_or_def)
      with False \<open>49998 < utf8_bytes t\<close> show ?thesis
        by (simp add: search_instructors_def)
    qed
  next
    case False
    then have "select_where
          (\<lambda>r. sql_or (like (search_pattern t) (instructors_row.name r))
                  (sql_or (like (search_pattern t) (instructors_row.instructor_id r))
                     (like (search_pattern t) (instructors_row.email r))))
          (instructors db)
        = Inr (filter (\<lambda>r. term_matches t (instructors_row.name r)
                             \<or> term_matches t (instructors_row.instructor_id r)
                             \<or> term_matches t (instructors_row.email r)) (instructors db))"
      by (intro select_where_filter) (simp add: like_search_pattern sql_or_def)
    with False show ?thesis
      by (simp add: search_instructors_def)
  qed
next
  have join: "(courses_left_join db = []) = (courses db = [])"
    by (rule left_join_Nil)
  show "search_courses db t =
        (if courses db \<noteq> [] \<and> 49998 < utf8_bytes t then Inl OperationalError
         else Inr (sort_key (\<lambda>(cid, cn, iid, inm). cn)
                (filter (\<lambda>(cid, cn, iid, inm). term_matches t cn \<or> term_matches t cid)
                   (courses_left_join db))))"
  proof (cases "49998 < utf8_bytes t")
    case True
    show ?thesis
    proof (cases "courses db = []")
      case True
      then show ?thesis by (simp add: search_courses_def courses_left_join_def)
    next
      case False
      with join have "courses_left_join db \<noteq> []" by simp
      with \<open>49998 < utf8_bytes t\<close> have "select_where
          (\<lambda>(cid, cn, iid, inm). sql_or (like (search_pattern t) cn) (like (search_pattern t) cid))
          (courses_left_join db) = Inl OperationalError"
        by (intro select_where_error)
          (simp_all add: like_search_pattern sql_or_def split: prod.splits)
      with False \<open>49998 < utf8_bytes t\<close> show ?thesis
        by (simp add: search_courses_def)
    qed
  next
    case False
    then have "select_where
          (\<lambda>(cid, cn, iid, inm). sql_or (like (search_pattern t) cn) (like (search_pattern t) cid))
          (courses_left_join db)
        = Inr (filter (\<lambda>(cid, cn, iid, inm). term_matches t cn \<or> term_matches t cid)
                 (courses_left_join db))"
      by (intro select_where_filter) (auto simp: like_search_pattern sql_or_def)
    with False show ?thesis
      by (simp add: search_courses_def)
  qed
next
  show "(\<forall>c \<in> set (c_string t). c \<noteq> CHR ''%'' \<and> c \<noteq> CHR ''_'') \<longrightarrow>
        term_matches t x =
          (if CHR 0x00 \<in> set t then endswith (nocase (c_string x)) (nocase (c_string t))
           else str_in (nocase t) (nocase (c_string x)))"
  proof
    assume t: "\<forall>c \<in> set (c_string t). c \<noteq> CHR ''%'' \<and> c \<noteq> CHR ''_''"
    show "term_matches t x =
          (if CHR 0x00 \<in> set t then endswith (nocase (c_string x)) (nocase (c_string t))
           else str_in (nocase t) (nocase (c_string x)))"
    proof (cases "CHR 0x00 \<in> set t")
      case True
      with term_matches_suffix [OF t] show ?thesis by simp
    next
      case False
      with t have "\<forall>c \<in> set t. c \<noteq> CHR ''%'' \<and> c \<noteq> CHR ''_''"
        by (simp add: c_string_no_nul)
      with term_matches_substring False show ?thesis by simp
    qed
  qed
qed

lemma school_added_eq:
  "school_added =
     school_heap\<lparr>system := \<lparr>SchoolSystem.students = [1], instructors = [1, 2], courses = [1]\<rparr>\<rparr>"
  by (simp add: school_added_def school_heap_def blank_world_def addcourse_def
      addinstructor_def addstudent_def findstudent_def findinstructor_def findcourse_def)

lemma lower_examples:
  "lower ''doe'' = ''doe''" "lower ''John Doe'' = ''john doe''"
  "lower ''doe@x.com'' = ''doe@x.com''" "lower ''S1'' = ''s1''"
  "lower ''Ada Lovelace'' = ''ada lovelace''" "lower ''ada@x.com'' = ''ada@x.com''"
  "lower ''I1'' = ''i1''" "lower ''Bob Boole'' = ''bob boole''"
  "lower ''bob@x.com'' = ''bob@x.com''" "lower ''I2'' = ''i2''"
  "lower ''Algorithms'' = ''algorithms''" "lower ''C1'' = ''c1''" "lower ''None'' = ''none''"
  "lower ''Lovelace'' = ''lovelace''"
  by code_simp+

lemma nocase_examples:
  "nocase ''ALGO'' = ''algo''" "nocase ''Lovelace'' = ''lovelace''"
  "nocase (c_string ''Algorithms'') = ''algorithms''" "nocase (c_string ''C1'') = ''c1''"
  "utf8_bytes ''ALGO'' = 4" "utf8_bytes ''Lovelace'' = 8"
  "c_string ''ALGO'' = ''ALGO''" "c_string ''Lovelace'' = ''Lovelace''"
  by code_simp+

theorem search_examined_fields_witness:
  "search school_added (Some '' Doe '') = [(''Student'', ''John Doe'', ''S1'', [])]
   \<and> search_courses database_ada ''ALGO''
       = Inr [(''C1'', ''Algorithms'', Some ''I1'', Some ''Ada Lovelace'')]
   \<and> search_courses database_ada ''Lovelace'' = Inr []"
proof -
  have q: "query (Some '' Doe '') = ''doe''"
    by code_simp
  have j: "courses_left_join database_ada
      = [(''C1'', ''Algorithms'', Some ''I1'', Some ''Ada Lovelace'')]"
    by (simp add: courses_left_join_def database_ada_def)
  have c: "courses database_ada \<noteq> []"
    by (simp add: database_ada_def)
  have m1: "term_matches ''ALGO'' ''Algorithms''" "\<not> term_matches ''ALGO'' ''C1''"
    using search_examined_fields [where t = "''ALGO''" and x = "''Algorithms''"]
      search_examined_fields [where t = "''ALGO''" and x = "''C1''"]
    by (simp_all add: nocase_examples)
  have m2: "\<not> term_matches ''Lovelace'' ''Algorithms''" "\<not> term_matches ''Lovelace'' ''C1''"
    using search_examined_fields [where t = "''Lovelace''" and x = "''Algorithms''"]
      search_examined_fields [where t = "''Lovelace''" and x = "''C1''"]
    by (simp_all add: nocase_examples)
  from search_examined_fields [of school_added "Some '' Doe ''" database_ada "''ALGO''"]
    search_examined_fields [of school_added "Some '' Doe ''" database_ada "''Lovelace''"]
  show ?thesis
    by (simp add: q j m1 m2 nocase_examples lower_examples school_added_eq school_heap_def
        blank_world_def student_result_def inst_name_def)
qed

text \<open>
  C7 as stated fails for \<open>search\<close> of \<open>school.py\<close>: the query \<open>lovelace\<close> is contained in
  neither the name nor the id of the course Algorithms, only in the name of its instructor,
  and the course row is returned.
\<close>

theorem search_matches_instructor_name:
  "\<not> str_in (query (Some ''lovelace'')) (lower ''Algorithms'')
   \<and> \<not> str_in (query (Some ''lovelace'')) (lower ''C1'')
   \<and> search school_assigned (Some ''lovelace'') =
       [(''Instructor'', ''Ada Lovelace'', ''I1'', ''Algorithms''),
        (''Course'', ''Algorithms'', ''C1'', ''Instructor: Ada Lovelace; Students: '')]"
proof -
  have q: "query (Some ''lovelace'') = ''lovelace''"
    by code_simp
  have a: "school_assigned =
     school_heap
       \<lparr>instructor_at := (instructor_at school_heap)
          (1 := \<lparr>Instructor.name = ''Ada Lovelace'', age = 40, email = ''ada@x.com'',
                 instructorid = ''I1'', courses = [1]\<rparr>),
        course_at := (course_at school_heap)
          (1 := \<lparr>courseid = ''C1'', coursename = ''Algorithms'', instructor = Some 1,
                 students = []\<rparr>),
        system := \<lparr>SchoolSystem.students = [1], instructors = [1, 2], courses = [1]\<rparr>\<rparr>"
    by (simp add: school_assigned_def school_added_eq assign_def findinstructor_def
        findcourse_def Instructor_take_def school_heap_def blank_world_def)
  show ?thesis
    by (simp add: q a lower_examples search_def any_contains_def student_fields_def
        instructor_fields_def course_fields_def inst_name_def instructor_result_def
        course_result_def school_heap_def blank_world_def)
qed

text \<open>
  \<open>search\<close> of \<open>school.py\<close> folds the capital letters above 0xC0 as well, which the store
  does not: the query of code points 0xC9, D finds the name 0xE9, d in \<open>school.py\<close>, and as a
  term of the store it does not match that name.
\<close>

lemma lower_folds_latin1:
  "str_in (query (Some [CHR 0xC9, CHR ''D''])) (lower [CHR 0xE9, CHR ''d''])
   \<and> \<not> term_matches [CHR 0xC9, CHR ''D''] [CHR 0xE9, CHR ''d'']"
  by code_simp

text \<open>
  The text and the term are read up to their first NUL character: the term \<open>b\<close> does not
  match the text a, NUL, b, and the term z, NUL, Q matches the text \<open>xyz\<close>.
\<close>

lemma term_matches_nul:
  "\<not> term_matches ''b'' [CHR ''a'', CHR 0x00, CHR ''b'']
   \<and> term_matches [CHR ''z'', CHR 0x00, CHR ''Q''] ''xyz''"
  by code_simp

section \<open>Matching by derivatives\<close>

lemma nullable_lang: "nullable r = ([] \<in> lang r)"
  by (induction r) (auto simp: conc_def intro: star.star_nil)

lemma conc_Cons:
  "(c # w \<in> conc A B) =
     ((\<exists>u v. w = u @ v \<and> c # u \<in> A \<and> v \<in> B) \<or> ([] \<in> A \<and> c # w \<in> B))"
proof
  assume "c # w \<in> conc A B"
  then obtain u v where e: "c # w = u @ v" and u: "u \<in> A" and v: "v \<in> B"
    by (auto simp: conc_def)
  show "(\<exists>u v. w = u @ v \<and> c # u \<in> A \<and> v \<in> B) \<or> ([] \<in> A \<and> c # w \<in> B)"
  proof (cases u)
    case Nil
    with e u v show ?thesis by simp
  next
    case (Cons a u')
    with e u v have "w = u' @ v \<and> c # u' \<in> A \<and> v \<in> B" by simp
    then show ?thesis by blast
  qed
next
  assume "(\<exists>u v. w = u @ v \<and> c # u \<in> A \<and> v \<in> B) \<or> ([] \<in> A \<and> c # w \<in> B)"
  then show "c # w \<in> conc A B"
  proof
    assume "\<exists>u v. w = u @ v \<and> c # u \<in> A \<and> v \<in> B"
    then obtain u v where "w = u @ v" "c # u \<in> A" "v \<in> B" by blast
    then have "c # w = (c # u) @ v \<and> c # u \<in> A \<and> v \<in> B" by simp
    then show ?thesis unfolding conc_def by blast
  next
    assume "[] \<in> A \<and> c # w \<in> B"
    then have "c # w = [] @ (c # w) \<and> [] \<in> A \<and> c # w \<in> B" by simp
    then show ?thesis unfolding conc_def by blast
  qed
qed

lemma star_Cons_split:
  "x \<in> star A \<Longrightarrow> x = c # w \<Longrightarrow> \<exists>u v. w = u @ v \<and> c # u \<in> A \<and> v \<in> star A"
proof (induction arbitrary: w rule: star.induct)
  case star_nil
  then show ?case by simp
next
  case (star_app u v)
  show ?case
  proof (cases u)
    case Nil
    with star_app.prems have "v = c # w" by simp
    with star_app.IH show ?thesis by blast
  next
    case (Cons a u')
    with star_app.prems star_app.hyps have "w = u' @ v \<and> c # u' \<in> A \<and> v \<in> star A"
      by simp
    then show ?thesis by blast
  qed
qed

lemma star_Cons:
  "(c # w \<in> star A) = (\<exists>u v. w = u @ v \<and> c # u \<in> A \<and> v \<in> star A)"
proof
  assume "c # w \<in> star A"
  then show "\<exists>u v. w = u @ v \<and> c # u \<in> A \<and> v \<in> star A"
    by (rule star_Cons_split) simp
next
  assume "\<exists>u v. w = u @ v \<and> c # u \<in> A \<and> v \<in> star A"
  then obtain u v where w: "w = u @ v" and "c # u \<in> A" "v \<in> star A" by blast
  then have "(c # u) @ v \<in> star A" by (rule_tac star.star_app)
  with w show "c # w \<in> star A" by simp
qed

lemma deriv_lang: "(w \<in> lang (deriv c r)) = (c # w \<in> lang r)"
proof (induction r arbitrary: w)
  case (Seq r s)
  have "(w \<in> conc (lang (deriv c r)) (lang s))
      = (\<exists>u v. w = u @ v \<and> c # u \<in> lang r \<and> v \<in> lang s)"
    unfolding conc_def using Seq.IH(1) by auto
  with Seq.IH(2) show ?case
    by (simp add: conc_Cons nullable_lang)
next
  case (Star r)
  have "(w \<in> conc (lang (deriv c r)) (star (lang r)))
      = (\<exists>u v. w = u @ v \<and> c # u \<in> lang r \<and> v \<in> star (lang r))"
    unfolding conc_def using Star.IH by auto
  then show ?case
    by (simp add: star_Cons)
qed auto

lemma matches_lang: "matches r w = (w \<in> lang r)"
  by (induction w arbitrary: r) (simp_all add: nullable_lang deriv_lang)

lemma star_class: "(w \<in> star {[c] |c. P c}) = list_all P w"
proof
  assume "w \<in> star {[c] |c. P c}"
  then show "list_all P w"
    by (induction rule: star.induct) auto
next
  assume "list_all P w"
  then show "w \<in> star {[c] |c. P c}"
  proof (induction w)
    case Nil
    show ?case by (rule star.star_nil)
  next
    case (Cons a w)
    then have "[a] \<in> {[c] |c. P c}" and "w \<in> star {[c] |c. P c}" by auto
    then have "[a] @ w \<in> star {[c] |c. P c}" by (rule star.star_app)
    then show ?case by simp
  qed
qed

lemma plus_class: "(w \<in> lang (Plus (Class P))) = (w \<noteq> [] \<and> list_all P w)"
proof (cases w)
  case Nil
  then show ?thesis by (simp add: Plus_def conc_def)
next
  case (Cons a w')
  then show ?thesis by (auto simp: Plus_def conc_Cons star_class)
qed

lemma at_dot_class: "lang (Class (\<lambda>c. c = a)) = {[a]}"
  by auto

lemma address_lang:
  "(e \<in> lang (Seq (Plus (Class L)) (Seq (Class (\<lambda>c. c = CHR ''@''))
        (Seq (Plus (Class D)) (Seq (Class (\<lambda>c. c = CHR ''.'')) r)))))
   = address L D (\<lambda>t. t \<in> lang r) e"
proof -
  have "(e \<in> lang (Seq (Plus (Class L)) (Seq (Class (\<lambda>c. c = CHR ''@''))
        (Seq (Plus (Class D)) (Seq (Class (\<lambda>c. c = CHR ''.'')) r)))))
    = (\<exists>l x. e = l @ x \<and> l \<in> lang (Plus (Class L))
        \<and> (\<exists>a y. x = a @ y \<and> a = ''@''
          \<and> (\<exists>d z. y = d @ z \<and> d \<in> lang (Plus (Class D))
            \<and> (\<exists>b t. z = b @ t \<and> b = ''.'' \<and> t \<in> lang r))))"
    unfolding lang.simps(5) conc_def at_dot_class by blast
  also have "\<dots> = address L D (\<lambda>t. t \<in> lang r) e"
  proof
    assume "\<exists>l x. e = l @ x \<and> l \<in> lang (Plus (Class L))
        \<and> (\<exists>a y. x = a @ y \<and> a = ''@''
          \<and> (\<exists>d z. y = d @ z \<and> d \<in> lang (Plus (Class D))
            \<and> (\<exists>b t. z = b @ t \<and> b = ''.'' \<and> t \<in> lang r)))"
    then show "address L D (\<lambda>t. t \<in> lang r) e"
      unfolding address_def plus_class by auto
  next
    assume "address L D (\<lambda>t. t \<in> lang r) e"
    then obtain l d t where e: "e = l @ ''@'' @ d @ ''.'' @ t"
      and l: "l \<in> lang (Plus (Class L))" and d: "d \<in> lang (Plus (Class D))"
      and t: "t \<in> lang r"
      unfolding address_def plus_class by blast
    from t have "\<exists>b t'. ''.'' @ t = b @ t' \<and> b = ''.'' \<and> t' \<in> lang r"
      by blast
    with d have "\<exists>d' z. d @ ''.'' @ t = d' @ z \<and> d' \<in> lang (Plus (Class D))
        \<and> (\<exists>b t'. z = b @ t' \<and> b = ''.'' \<and> t' \<in> lang r)"
      by blast
    then have "\<exists>a y. ''@'' @ d @ ''.'' @ t = a @ y \<and> a = ''@''
        \<and> (\<exists>d' z. y = d' @ z \<and> d' \<in> lang (Plus (Class D))
          \<and> (\<exists>b t'. z = b @ t' \<and> b = ''.'' \<and> t' \<in> lang r))"
      by blast
    with e l show "\<exists>l x. e = l @ x \<and> l \<in> lang (Plus (Class L))
        \<and> (\<exists>a y. x = a @ y \<and> a = ''@''
          \<and> (\<exists>d z. y = d @ z \<and> d \<in> lang (Plus (Class D))
            \<and> (\<exists>b t. z = b @ t \<and> b = ''.'' \<and> t \<in> lang r)))"
      by blast
  qed
  finally show ?thesis .
qed

lemma two_or_more_class:
  "(t \<in> lang (Seq (Class P) (Seq (Class P) (Star (Class P))))) = (2 \<le> length t \<and> list_all P t)"
proof (cases t)
  case Nil
  then show ?thesis by (simp add: conc_def)
next
  case t: (Cons a t')
  show ?thesis
  proof (cases t')
    case Nil
    with t show ?thesis by (simp add: conc_Cons) (auto simp: conc_def)
  next
    case (Cons b t'')
    with t show ?thesis by (auto simp: conc_Cons star_class)
  qed
qed

lemma re_match_iff: "re_match r e = or_before_newline (\<lambda>e. e \<in> lang r) e"
proof -
  have "(e \<noteq> [] \<and> last e = newline \<and> butlast e \<in> lang r)
      = (\<exists>e'. e = e' @ [newline] \<and> e' \<in> lang r)"
    by (cases e rule: rev_cases) auto
  then show ?thesis
    by (simp add: re_match_def or_before_newline_def matches_lang)
qed

lemma re_match_pattern: "re_match pattern e = strict_address e"
proof -
  have "\<And>x. (x \<in> lang pattern)
      = address local_char domain_char (\<lambda>t. 2 \<le> length t \<and> list_all is_letter t) x"
    unfolding pattern_def address_lang two_or_more_class ..
  then show ?thesis
    by (simp add: re_match_iff strict_address_def)
qed

lemma re_match_email_re: "re_match email_re e = loose_address e"
proof -
  have "\<And>x. (x \<in> lang email_re)
      = address not_at_space not_at_space (\<lambda>t. t \<noteq> [] \<and> list_all not_at_space t) x"
    unfolding email_re_def address_lang plus_class ..
  then show ?thesis
    by (simp add: re_match_iff loose_address_def)
qed

section \<open>Constructing entities\<close>

lemma strip_Nil_iff: "(strip s = []) = blank s"
proof
  assume "strip s = []"
  then have a: "\<forall>c \<in> set (dropWhile isspace s). isspace c"
    by (simp add: strip_def dropWhile_eq_Nil_conv)
  have "dropWhile isspace s = []"
  proof (rule ccontr)
    assume n: "dropWhile isspace s \<noteq> []"
    then have "\<not> isspace (hd (dropWhile isspace s))"
      by (rule hd_dropWhile)
    moreover from n have "hd (dropWhile isspace s) \<in> set (dropWhile isspace s)"
      by simp
    ultimately show False
      using a by blast
  qed
  then show "blank s"
    by (simp add: blank_def list_all_iff dropWhile_eq_Nil_conv)
next
  assume "blank s"
  then show "strip s = []"
    by (simp add: blank_def list_all_iff strip_blank)
qed

lemma SM_Person_init_error: "SM_Person_init nm ag em = Inl x \<Longrightarrow> x = ValueError"
  by (auto simp: SM_Person_init_def split: if_splits)

lemma SM_Person_init_Inl:
  "(SM_Person_init nm ag em = Inl ValueError) =
     (\<not> (\<exists>n. nm = StrVal n \<and> \<not> blank n) \<or> \<not> (\<exists>a. ag = IntVal a \<and> 0 \<le> a)
      \<or> \<not> (\<exists>e. em = StrVal e \<and> strict_address e))"
  by (auto simp: SM_Person_init_def validate_name_def validate_age_def validate_email_def
      re_match_pattern strip_Nil_iff split: pyval.splits)

lemma SM_Person_init_Inr:
  "SM_Person_init nm ag em = Inr (n, a, e) \<Longrightarrow> nm = StrVal n \<and> ag = IntVal a \<and> em = StrVal e"
  by (auto simp: SM_Person_init_def validate_name_def validate_age_def validate_email_def
      str_of_def int_of_def split: pyval.splits if_splits)

lemma SM_Student_init_error: "SM_Student_init nm ag em sid = Inl x \<Longrightarrow> x = ValueError"
  by (auto simp: SM_Student_init_def split: sum.splits prod.splits if_splits
      dest: SM_Person_init_error)

lemma SM_Instructor_init_error: "SM_Instructor_init nm ag em sid = Inl x \<Longrightarrow> x = ValueError"
  by (auto simp: SM_Instructor_init_def split: sum.splits prod.splits if_splits
      dest: SM_Person_init_error)

lemma SM_Student_init_Inl:
  "(SM_Student_init nm ag em sid = Inl ValueError) =
     (\<not> (\<exists>n. nm = StrVal n \<and> \<not> blank n) \<or> \<not> (\<exists>a. ag = IntVal a \<and> 0 \<le> a)
      \<or> \<not> (\<exists>e. em = StrVal e \<and> strict_address e)
      \<or> \<not> (\<exists>i. sid = StrVal i \<and> \<not> blank i))"
proof (cases "SM_Person_init nm ag em")
  case (Inl x)
  then have "SM_Person_init nm ag em = Inl ValueError"
    using SM_Person_init_error by blast
  then show ?thesis
    using SM_Person_init_Inl [of nm ag em] by (auto simp: SM_Student_init_def)
next
  case (Inr p)
  then have "SM_Person_init nm ag em \<noteq> Inl ValueError" by simp
  with Inr show ?thesis
    using SM_Person_init_Inl [of nm ag em]
    by (auto simp: SM_Student_init_def validate_student_id_def strip_Nil_iff
        split: prod.splits pyval.splits)
qed

lemma SM_Instructor_init_Inl:
  "(SM_Instructor_init nm ag em sid = Inl ValueError) =
     (\<not> (\<exists>n. nm = StrVal n \<and> \<not> blank n) \<or> \<not> (\<exists>a. ag = IntVal a \<and> 0 \<le> a)
      \<or> \<not> (\<exists>e. em = StrVal e \<and> strict_address e)
      \<or> \<not> (\<exists>i. sid = StrVal i \<and> \<not> blank i))"
proof (cases "SM_Person_init nm ag em")
  case (Inl x)
  then have "SM_Person_init nm ag em = Inl ValueError"
    using SM_Person_init_error by blast
  then show ?thesis
    using SM_Person_init_Inl [of nm ag em] by (auto simp: SM_Instructor_init_def)
next
  case (Inr p)
  then have "SM_Person_init nm ag em \<noteq> Inl ValueError" by simp
  with Inr show ?thesis
    using SM_Person_init_Inl [of nm ag em]
    by (auto simp: SM_Instructor_init_def validate_instructor_id_def strip_Nil_iff
        split: prod.splits pyval.splits)
qed

lemma SM_Student_init_Inr:
  "SM_Student_init nm ag em sid = Inr s \<Longrightarrow>
     nm = StrVal (SM_Student.name s) \<and> ag = IntVal (SM_Student.age s)
     \<and> em = StrVal (SM_Student.email s) \<and> sid = StrVal (SM_Student.student_id s)
     \<and> registered_courses s = []"
  by (auto simp: SM_Student_init_def validate_student_id_def str_of_def
      split: sum.splits prod.splits if_splits pyval.splits dest: SM_Person_init_Inr)

lemma SM_Instructor_init_Inr:
  "SM_Instructor_init nm ag em sid = Inr i \<Longrightarrow>
     nm = StrVal (SM_Instructor.name i) \<and> ag = IntVal (SM_Instructor.age i)
     \<and> em = StrVal (SM_Instructor.email i) \<and> sid = StrVal (SM_Instructor.instructor_id i)
     \<and> assigned_courses i = []"
  by (auto simp: SM_Instructor_init_def validate_instructor_id_def str_of_def
      split: sum.splits prod.splits if_splits pyval.splits dest: SM_Person_init_Inr)

text \<open>The constructors of \<open>school.py\<close>, case by case on the age.\<close>

lemma whole_div:
  assumes "0 \<le> m"
  shows "float_int (Finite m e) = Inr z \<Longrightarrow> whole z m e"
proof -
  assume f: "float_int (Finite m e) = Inr z"
  show "whole z m e"
  proof (cases "0 \<le> e")
    case True
    with f show ?thesis by (simp add: float_int_def whole_def)
  next
    case False
    define d :: int where "d = 2 ^ nat (- e)"
    have d: "0 < d" by (simp add: d_def)
    from False f assms have z: "z = m div d"
      by (simp add: float_int_def d_def)
    have "d * (m div d) + m mod d = m" by (rule mult_div_mod_eq)
    moreover from d have "0 \<le> m mod d" "m mod d < d" by simp_all
    ultimately have "d * (m div d) \<le> m \<and> m < d * (m div d) + d"
      by linarith
    then have "m div d * d \<le> m \<and> m < (m div d + 1) * d"
      by (simp add: algebra_simps)
    with False show ?thesis
      by (simp add: whole_def z d_def)
  qed
qed

lemma Person_init_cases:
  "Person_init n a e =
     (if n = [] \<or> a = NoneVal \<or> negative a \<or> a = FloatVal NaN then Inl ValueError
      else if \<exists>s. a = StrVal s then Inl TypeError
      else if e \<noteq> [] \<and> \<not> loose_address e then Inl ValueError
      else if a = FloatVal PosInf then Inl error.OverflowError
      else case a of
             IntVal x \<Rightarrow> Inr (n, x, e)
           | FloatVal y \<Rightarrow> (case float_int y of Inl err \<Rightarrow> Inl err | Inr x \<Rightarrow> Inr (n, x, e))
           | _ \<Rightarrow> Inl ValueError)"
  by (auto simp: Person_init_def negative_def float_lt_zero_def float_int_def re_match_email_re
      split: pyval.splits pyfloat.splits)

lemma Person_init_Inr:
  assumes "Person_init n a e = Inr (n', x, e')"
  shows "n' = n \<and> e' = e
         \<and> (a = IntVal x \<or> (\<exists>m k. a = FloatVal (Finite m k) \<and> 0 \<le> m \<and> whole x m k))"
proof (cases a)
  case NoneVal
  with assms show ?thesis by (simp add: Person_init_def split: if_splits)
next
  case (IntVal i)
  with assms show ?thesis by (simp add: Person_init_def split: if_splits)
next
  case (StrVal s)
  with assms show ?thesis by (simp add: Person_init_def split: if_splits)
next
  case (FloatVal y)
  show ?thesis
  proof (cases y)
    case (Finite m k)
    with FloatVal assms have m: "0 \<le> m" and f: "float_int (Finite m k) = Inr x"
      and "n' = n" "e' = e"
      by (auto simp: Person_init_def float_lt_zero_def split: if_splits sum.splits)
    with whole_div [OF m f] FloatVal Finite show ?thesis by simp
  next
    case PosInf
    with FloatVal assms show ?thesis
      by (simp add: Person_init_def float_int_def float_lt_zero_def split: if_splits)
  next
    case NegInf
    with FloatVal assms show ?thesis
      by (simp add: Person_init_def float_int_def float_lt_zero_def split: if_splits)
  next
    case NaN
    with FloatVal assms show ?thesis
      by (simp add: Person_init_def float_int_def float_lt_zero_def split: if_splits)
  qed
qed

lemma Person_init_Inl:
  "(Person_init n a e = Inl ValueError) =
     (n = [] \<or> a = NoneVal \<or> negative a \<or> a = FloatVal NaN
      \<or> ((\<forall>s. a \<noteq> StrVal s) \<and> e \<noteq> [] \<and> \<not> loose_address e))"
  "(Person_init n a e = Inl TypeError) = (n \<noteq> [] \<and> (\<exists>s. a = StrVal s))"
  "(Person_init n a e = Inl error.OverflowError) =
     (n \<noteq> [] \<and> a = FloatVal PosInf \<and> (e = [] \<or> loose_address e))"
  unfolding Person_init_cases
  by (auto simp: negative_def float_int_def split: pyval.splits pyfloat.splits)

lemma Student_init_Inl:
  "(Student_init n a e k = Inl ValueError) =
     (n = [] \<or> a = NoneVal \<or> negative a \<or> a = FloatVal NaN
      \<or> ((\<forall>s. a \<noteq> StrVal s) \<and> e \<noteq> [] \<and> \<not> loose_address e)
      \<or> ((\<forall>s. a \<noteq> StrVal s) \<and> a \<noteq> FloatVal PosInf \<and> k = []))"
  "(Student_init n a e k = Inl TypeError) = (n \<noteq> [] \<and> (\<exists>s. a = StrVal s))"
  "(Student_init n a e k = Inl error.OverflowError) =
     (n \<noteq> [] \<and> a = FloatVal PosInf \<and> (e = [] \<or> loose_address e))"
proof -
  show "(Student_init n a e k = Inl ValueError) =
     (n = [] \<or> a = NoneVal \<or> negative a \<or> a = FloatVal NaN
      \<or> ((\<forall>s. a \<noteq> StrVal s) \<and> e \<noteq> [] \<and> \<not> loose_address e)
      \<or> ((\<forall>s. a \<noteq> StrVal s) \<and> a \<noteq> FloatVal PosInf \<and> k = []))"
  proof (cases "Person_init n a e")
    case (Inl x)
    with Person_init_Inl [of n a e] show ?thesis
      by (cases x) (auto simp: Student_init_def)
  next
    case (Inr p)
    with Person_init_Inl [of n a e] show ?thesis
      by (auto simp: Student_init_def split: prod.splits)
  qed
  show "(Student_init n a e k = Inl TypeError) = (n \<noteq> [] \<and> (\<exists>s. a = StrVal s))"
    using Person_init_Inl(2) [of n a e]
    by (cases "Person_init n a e") (auto simp: Student_init_def split: prod.splits)
  show "(Student_init n a e k = Inl error.OverflowError) =
     (n \<noteq> [] \<and> a = FloatVal PosInf \<and> (e = [] \<or> loose_address e))"
    using Person_init_Inl(3) [of n a e]
    by (cases "Person_init n a e") (auto simp: Student_init_def split: prod.splits)
qed

lemma Instructor_init_Inl:
  "(Instructor_init n a e k = Inl ValueError) =
     (n = [] \<or> a = NoneVal \<or> negative a \<or> a = FloatVal NaN
      \<or> ((\<forall>s. a \<noteq> StrVal s) \<and> e \<noteq> [] \<and> \<not> loose_address e)
      \<or> ((\<forall>s. a \<noteq> StrVal s) \<and> a \<noteq> FloatVal PosInf \<and> k = []))"
  "(Instructor_init n a e k = Inl TypeError) = (n \<noteq> [] \<and> (\<exists>s. a = StrVal s))"
  "(Instructor_init n a e k = Inl error.OverflowError) =
     (n \<noteq> [] \<and> a = FloatVal PosInf \<and> (e = [] \<or> loose_address e))"
proof -
  show "(Instructor_init n a e k = Inl ValueError) =
     (n = [] \<or> a = NoneVal \<or> negative a \<or> a = FloatVal NaN
      \<or> ((\<forall>s. a \<noteq> StrVal s) \<and> e \<noteq> [] \<and> \<not> loose_address e)
      \<or> ((\<forall>s. a \<noteq> StrVal s) \<and> a \<noteq> FloatVal PosInf \<and> k = []))"
  proof (cases "Person_init n a e")
    case (Inl x)
    with Person_init_Inl [of n a e] show ?thesis
      by (cases x) (auto simp: Instructor_init_def)
  next
    case (Inr p)
    with Person_init_Inl [of n a e] show ?thesis
      by (auto simp: Instructor_init_def split: prod.splits)
  qed
  show "(Instructor_init n a e k = Inl TypeError) = (n \<noteq> [] \<and> (\<exists>s. a = StrVal s))"
    using Person_init_Inl(2) [of n a e]
    by (cases "Person_init n a e") (auto simp: Instructor_init_def split: prod.splits)
  show "(Instructor_init n a e k = Inl error.OverflowError) =
     (n \<noteq> [] \<and> a = FloatVal PosInf \<and> (e = [] \<or> loose_address e))"
    using Person_init_Inl(3) [of n a e]
    by (cases "Person_init n a e") (auto simp: Instructor_init_def split: prod.splits)
qed

lemma Student_init_Inr:
  "Student_init n a e k = Inr s \<Longrightarrow>
     Student.name s = n \<and> Student.email s = e \<and> studentid s = k \<and> Student.courses s = []
     \<and> (a = IntVal (Student.age s)
        \<or> (\<exists>m x. a = FloatVal (Finite m x) \<and> 0 \<le> m \<and> whole (Student.age s) m x))"
  by (auto simp: Student_init_def split: sum.splits prod.splits if_splits
      dest!: Person_init_Inr)

lemma Instructor_init_Inr:
  "Instructor_init n a e k = Inr i \<Longrightarrow>
     Instructor.name i = n \<and> Instructor.email i = e \<and> instructorid i = k
     \<and> Instructor.courses i = []
     \<and> (a = IntVal (Instructor.age i)
        \<or> (\<exists>m x. a = FloatVal (Finite m x) \<and> 0 \<le> m \<and> whole (Instructor.age i) m x))"
  by (auto simp: Instructor_init_def split: sum.splits prod.splits if_splits
      dest!: Person_init_Inr)

text \<open>
  C8 (amended). In \<open>school_management.py\<close>, building a Person, a Student or an Instructor
  raises \<open>ValueError\<close>, and nothing else, exactly when the name is not a string or is
  blank, or the age is not an integer or is negative, or the email is not a string of the
  form local@domain.tld (local part of ASCII letters, digits and \<open>._%+-\<close>, domain of ASCII
  letters, digits, dots and hyphens, top-level part of two or more ASCII letters, a
  newline after it being tolerated), or, for a Student or an Instructor, the id is not a
  string or is blank; an object that is built holds the arguments as given. In
  \<open>school.py\<close>, for a name, an email and an id that are strings, it raises \<open>ValueError\<close>
  exactly when the name is empty, or the age is \<open>None\<close>, a negative number or the float that
  is not a number, or the age is not a string and the email is not empty and not of the
  form local@domain.tld with three non-empty parts free of at signs and white space, or,
  for a Student or an Instructor, the age is neither a string nor the positive infinity
  and the id is empty. It raises \<open>TypeError\<close> exactly when the name is not empty and the age
  is a string, and \<open>OverflowError\<close> exactly when the name is not empty, the age is the
  positive infinity and the email passes. An object that is built holds the name, the
  email and the id as given, and as age the integer given or the whole part of the float
  given.
\<close>

theorem constructors_validate:
  "(SM_Person_init nm ag em = Inl ValueError) =
     (\<not> (\<exists>n. nm = StrVal n \<and> \<not> blank n) \<or> \<not> (\<exists>a. ag = IntVal a \<and> 0 \<le> a)
      \<or> \<not> (\<exists>e. em = StrVal e \<and> strict_address e))
   \<and> (SM_Person_init nm ag em = Inr (pn, pa, pe) \<longrightarrow>
        nm = StrVal pn \<and> ag = IntVal pa \<and> em = StrVal pe)
   \<and> (Person_init n a e = Inl ValueError) =
     (n = [] \<or> a = NoneVal \<or> negative a \<or> a = FloatVal NaN
      \<or> ((\<forall>t. a \<noteq> StrVal t) \<and> e \<noteq> [] \<and> \<not> loose_address e))
   \<and> (Person_init n a e = Inr (pn', pa', pe') \<longrightarrow>
        pn' = n \<and> pe' = e
        \<and> (a = IntVal pa' \<or> (\<exists>m x. a = FloatVal (Finite m x) \<and> 0 \<le> m \<and> whole pa' m x)))
   \<and> (SM_Student_init nm ag em sid = Inl ValueError) =
     (\<not> (\<exists>n. nm = StrVal n \<and> \<not> blank n) \<or> \<not> (\<exists>a. ag = IntVal a \<and> 0 \<le> a)
      \<or> \<not> (\<exists>e. em = StrVal e \<and> strict_address e)
      \<or> \<not> (\<exists>i. sid = StrVal i \<and> \<not> blank i))
   \<and> SM_Student_init nm ag em sid \<noteq> Inl TypeError
   \<and> SM_Student_init nm ag em sid \<noteq> Inl error.OverflowError
   \<and> (SM_Student_init nm ag em sid = Inr s \<longrightarrow>
        nm = StrVal (SM_Student.name s) \<and> ag = IntVal (SM_Student.age s)
        \<and> em = StrVal (SM_Student.email s) \<and> sid = StrVal (SM_Student.student_id s)
        \<and> registered_courses s = [])
   \<and> (SM_Instructor_init nm ag em sid = Inl ValueError) =
     (\<not> (\<exists>n. nm = StrVal n \<and> \<not> blank n) \<or> \<not> (\<exists>a. ag = IntVal a \<and> 0 \<le> a)
      \<or> \<not> (\<exists>e. em = StrVal e \<and> strict_address e)
      \<or> \<not> (\<exists>i. sid = StrVal i \<and> \<not> blank i))
   \<and> SM_Instructor_init nm ag em sid \<noteq> Inl TypeError
   \<and> SM_Instructor_init nm ag em sid \<noteq> Inl error.OverflowError
   \<and> (SM_Instructor_init nm ag em sid = Inr i \<longrightarrow>
        nm = StrVal (SM_Instructor.name i) \<and> ag = IntVal (SM_Instructor.age i)
        \<and> em = StrVal (SM_Instructor.email i) \<and> sid = StrVal (SM_Instructor.instructor_id i)
        \<and> assigned_courses i = [])
   \<and> (Student_init n a e k = Inl ValueError) =
     (n = [] \<or> a = NoneVal \<or> negative a \<or> a = FloatVal NaN
      \<or> ((\<forall>t. a \<noteq> StrVal t) \<and> e \<noteq> [] \<and> \<not> loose_address e)
      \<or> ((\<forall>t. a \<noteq> StrVal t) \<and> a \<noteq> FloatVal PosInf \<and> k = []))
   \<and> (Student_init n a e k = Inl TypeError) = (n \<noteq> [] \<and> (\<exists>t. a = StrVal t))
   \<and> (Student_init n a e k = Inl error.OverflowError) =
     (n \<noteq> [] \<and> a = FloatVal PosInf \<and> (e = [] \<or> loose_address e))
   \<and> (Student_init n a e k = Inr s' \<longrightarrow>
        Student.name s' = n \<and> Student.email s' = e \<and> studentid s' = k
        \<and> Student.courses s' = []
        \<and> (a = IntVal (Student.age s')
           \<or> (\<exists>m x. a = FloatVal (Finite m x) \<and> 0 \<le> m \<and> whole (Student.age s') m x)))
   \<and> (Instructor_init n a e k = Inl ValueError) =
     (n = [] \<or> a = NoneVal \<or> negative a \<or> a = FloatVal NaN
      \<or> ((\<forall>t. a \<noteq> StrVal t) \<and> e \<noteq> [] \<and> \<not> loose_address e)
      \<or> ((\<forall>t. a \<noteq> StrVal t) \<and> a \<noteq> FloatVal PosInf \<and> k = []))
   \<and> (Instructor_init n a e k = Inl TypeError) = (n \<noteq> [] \<and> (\<exists>t. a = StrVal t))
   \<and> (Instructor_init n a e k = Inl error.OverflowError) =
     (n \<noteq> [] \<and> a = FloatVal PosInf \<and> (e = [] \<or> loose_address e))
   \<and> (Instructor_init n a e k = Inr i' \<longrightarrow>
        Instructor.name i' = n \<and> Instructor.email i' = e \<and> instructorid i' = k
        \<and> Instructor.courses i' = []
        \<and> (a = IntVal (Instructor.age i')
           \<or> (\<exists>m x. a = FloatVal (Finite m x) \<and> 0 \<le> m \<and> whole (Instructor.age i') m x)))"
proof -
  have a1: "SM_Student_init nm ag em sid \<noteq> Inl TypeError"
    "SM_Student_init nm ag em sid \<noteq> Inl error.OverflowError"
    using SM_Student_init_error [of nm ag em sid] by auto
  have a2: "SM_Instructor_init nm ag em sid \<noteq> Inl TypeError"
    "SM_Instructor_init nm ag em sid \<noteq> Inl error.OverflowError"
    using SM_Instructor_init_error [of nm ag em sid] by auto
  have b1: "SM_Student_init nm ag em sid = Inr s \<longrightarrow>
        nm = StrVal (SM_Student.name s) \<and> ag = IntVal (SM_Student.age s)
        \<and> em = StrVal (SM_Student.email s) \<and> sid = StrVal (SM_Student.student_id s)
        \<and> registered_courses s = []"
    using SM_Student_init_Inr [of nm ag em sid s] by blast
  have b2: "SM_Instructor_init nm ag em sid = Inr i \<longrightarrow>
        nm = StrVal (SM_Instructor.name i) \<and> ag = IntVal (SM_Instructor.age i)
        \<and> em = StrVal (SM_Instructor.email i) \<and> sid = StrVal (SM_Instructor.instructor_id i)
        \<and> assigned_courses i = []"
    using SM_Instructor_init_Inr [of nm ag em sid i] by blast
  have c1: "Student_init n a e k = Inr s' \<longrightarrow>
        Student.name s' = n \<and> Student.email s' = e \<and> studentid s' = k
        \<and> Student.courses s' = []
        \<and> (a = IntVal (Student.age s')
           \<or> (\<exists>m x. a = FloatVal (Finite m x) \<and> 0 \<le> m \<and> whole (Student.age s') m x))"
    using Student_init_Inr [of n a e k s'] by blast
  have c2: "Instructor_init n a e k = Inr i' \<longrightarrow>
        Instructor.name i' = n \<and> Instructor.email i' = e \<and> instructorid i' = k
        \<and> Instructor.courses i' = []
        \<and> (a = IntVal (Instructor.age i')
           \<or> (\<exists>m x. a = FloatVal (Finite m x) \<and> 0 \<le> m \<and> whole (Instructor.age i') m x))"
    using Instructor_init_Inr [of n a e k i'] by blast
  have p1: "SM_Person_init nm ag em = Inr (pn, pa, pe) \<longrightarrow>
        nm = StrVal pn \<and> ag = IntVal pa \<and> em = StrVal pe"
    using SM_Person_init_Inr [of nm ag em pn pa pe] by blast
  have p2: "Person_init n a e = Inr (pn', pa', pe') \<longrightarrow>
        pn' = n \<and> pe' = e
        \<and> (a = IntVal pa' \<or> (\<exists>m x. a = FloatVal (Finite m x) \<and> 0 \<le> m \<and> whole pa' m x))"
    using Person_init_Inr [of n a e pn' pa' pe'] by blast
  from SM_Person_init_Inl [of nm ag em] p1 Person_init_Inl(1) [of n a e] p2
    SM_Student_init_Inl [of nm ag em sid] a1 b1 SM_Instructor_init_Inl [of nm ag em sid]
    a2 b2 Student_init_Inl [of n a e k] c1 Instructor_init_Inl [of n a e k] c2
  show ?thesis
    by - (intro conjI, assumption+)
qed

theorem constructors_validate_witness:
  "SM_Student_init (StrVal ''John Doe'') (IntVal 20) (StrVal ''doe@x.com'') (StrVal ''S1'')
     = Inr john_doe
   \<and> strict_address ''doe@x.com''
   \<and> SM_Student_init (StrVal [CHR 0x20, CHR 0xA0]) (IntVal 20) (StrVal ''doe@x.com'')
       (StrVal ''S1'') = Inl ValueError
   \<and> SM_Student_init (StrVal ''John Doe'') (FloatVal (Finite 20 0)) (StrVal ''doe@x.com'')
       (StrVal ''S1'') = Inl ValueError
   \<and> SM_Instructor_init (StrVal ''Ada'') (IntVal 40) (StrVal ''ada@x.c'') (StrVal ''I1'')
     = Inl ValueError
   \<and> Student_init '' '' (IntVal 20) [] ''S1''
     = Inr \<lparr>Student.name = '' '', age = 20, email = [], studentid = ''S1'', courses = []\<rparr>
   \<and> Student_init ''Al'' (FloatVal (Finite 41 (- 1))) ''al@x.com'' ''S2''
     = Inr \<lparr>Student.name = ''Al'', age = 20, email = ''al@x.com'', studentid = ''S2'',
            courses = []\<rparr>
   \<and> whole 20 41 (- 1)
   \<and> Student_init ''Al'' (FloatVal NaN) ''al@x.com'' ''S2'' = Inl ValueError
   \<and> Student_init ''Al'' (FloatVal PosInf) ''al@x.com'' ''S2'' = Inl error.OverflowError
   \<and> Student_init ''Al'' (StrVal ''20'') ''al@x.com'' ''S2'' = Inl TypeError
   \<and> Student_init ''Al'' (IntVal 20) [CHR ''a'', CHR 0xA0, CHR ''b'', CHR ''@'', CHR ''x'',
        CHR ''.'', CHR ''c''] ''S2'' = Inl ValueError
   \<and> Instructor_init ''Ada'' (IntVal (- 1)) ''ada@x.com'' ''I1'' = Inl ValueError"
proof -
  have ok: "SM_Student_init (StrVal ''John Doe'') (IntVal 20) (StrVal ''doe@x.com'')
      (StrVal ''S1'') = Inr john_doe"
    by code_simp
  have bl: "blank [CHR 0x20, CHR 0xA0]"
    by (simp add: blank_def isspace_def)
  have "re_match pattern ''doe@x.com''" "\<not> re_match pattern ''ada@x.c''"
    "re_match email_re ''al@x.com''"
    "\<not> re_match email_re [CHR ''a'', CHR 0xA0, CHR ''b'', CHR ''@'', CHR ''x'', CHR ''.'', CHR ''c'']"
    by code_simp+
  then have doe: "strict_address ''doe@x.com''" and ada: "\<not> strict_address ''ada@x.c''"
    and al: "loose_address ''al@x.com''"
    and nb: "\<not> loose_address [CHR ''a'', CHR 0xA0, CHR ''b'', CHR ''@'', CHR ''x'', CHR ''.'', CHR ''c'']"
    by (simp_all add: re_match_pattern re_match_email_re)
  from constructors_validate [where nm = "StrVal [CHR 0x20, CHR 0xA0]" and ag = "IntVal 20"
      and em = "StrVal ''doe@x.com''" and sid = "StrVal ''S1''"] bl
  have e1: "SM_Student_init (StrVal [CHR 0x20, CHR 0xA0]) (IntVal 20) (StrVal ''doe@x.com'')
       (StrVal ''S1'') = Inl ValueError"
    by simp
  from constructors_validate [where nm = "StrVal ''John Doe''" and ag = "FloatVal (Finite 20 0)"
      and em = "StrVal ''doe@x.com''" and sid = "StrVal ''S1''"]
  have e2: "SM_Student_init (StrVal ''John Doe'') (FloatVal (Finite 20 0)) (StrVal ''doe@x.com'')
       (StrVal ''S1'') = Inl ValueError"
    by simp
  from constructors_validate [where nm = "StrVal ''Ada''" and ag = "IntVal 40"
      and em = "StrVal ''ada@x.c''" and sid = "StrVal ''I1''"] ada
  have e3: "SM_Instructor_init (StrVal ''Ada'') (IntVal 40) (StrVal ''ada@x.c'') (StrVal ''I1'')
     = Inl ValueError"
    by simp
  have b1: "Student_init '' '' (IntVal 20) [] ''S1''
     = Inr \<lparr>Student.name = '' '', age = 20, email = [], studentid = ''S1'', courses = []\<rparr>"
    by (simp add: Student_init_def Person_init_def)
  have b2: "Student_init ''Al'' (FloatVal (Finite 41 (- 1))) ''al@x.com'' ''S2''
     = Inr \<lparr>Student.name = ''Al'', age = 20, email = ''al@x.com'', studentid = ''S2'',
            courses = []\<rparr>"
    using \<open>re_match email_re ''al@x.com''\<close>
    by (simp add: Student_init_def Person_init_def float_lt_zero_def float_int_def)
  from constructors_validate [where n = "''Al''" and a = "FloatVal (Finite 41 (- 1))"
      and e = "''al@x.com''" and k = "''S2''"
      and s' = "\<lparr>Student.name = ''Al'', age = 20, email = ''al@x.com'', studentid = ''S2'',
            courses = []\<rparr>"] b2
  have wh: "whole 20 41 (- 1)"
    by simp
  from constructors_validate [where n = "''Al''" and a = "FloatVal NaN"
      and e = "''al@x.com''" and k = "''S2''"]
  have e4: "Student_init ''Al'' (FloatVal NaN) ''al@x.com'' ''S2'' = Inl ValueError"
    by simp
  from constructors_validate [where n = "''Al''" and a = "FloatVal PosInf"
      and e = "''al@x.com''" and k = "''S2''"] al
  have e5: "Student_init ''Al'' (FloatVal PosInf) ''al@x.com'' ''S2'' = Inl error.OverflowError"
    by simp
  from constructors_validate [where n = "''Al''" and a = "StrVal ''20''"
      and e = "''al@x.com''" and k = "''S2''"]
  have e6: "Student_init ''Al'' (StrVal ''20'') ''al@x.com'' ''S2'' = Inl TypeError"
    by simp
  from constructors_validate [where n = "''Al''" and a = "IntVal 20"
      and e = "[CHR ''a'', CHR 0xA0, CHR ''b'', CHR ''@'', CHR ''x'', CHR ''.'', CHR ''c'']"
      and k = "''S2''"] nb
  have e7: "Student_init ''Al'' (IntVal 20) [CHR ''a'', CHR 0xA0, CHR ''b'', CHR ''@'', CHR ''x'',
        CHR ''.'', CHR ''c''] ''S2'' = Inl ValueError"
    by simp
  from constructors_validate [where n = "''Ada''" and a = "IntVal (- 1)" and e = "''ada@x.com''"
      and k = "''I1''"]
  have e8: "Instructor_init ''Ada'' (IntVal (- 1)) ''ada@x.com'' ''I1'' = Inl ValueError"
    by (simp add: negative_def)
  from ok doe e1 e2 e3 b1 b2 wh e4 e5 e6 e7 e8 show ?thesis by simp
qed

text \<open>
  C8 as stated fails for \<open>school.py\<close>: a blank name and an empty email, which is not of the
  form local@domain.tld, raise nothing, and neither does a top-level part of one letter;
  an age that is not an integer is accepted and stored without its fraction.
\<close>

theorem student_init_accepts_blank_name:
  "blank '' '' \<and> \<not> strict_address []
   \<and> Student_init '' '' (IntVal 20) [] ''S1''
     = Inr \<lparr>Student.name = '' '', age = 20, email = [], studentid = ''S1'', courses = []\<rparr>
   \<and> \<not> strict_address ''al@x.c''
   \<and> Student_init ''Al'' (IntVal 20) ''al@x.c'' ''S2''
     = Inr \<lparr>Student.name = ''Al'', age = 20, email = ''al@x.c'', studentid = ''S2'',
            courses = []\<rparr>
   \<and> Student_init ''Al'' (FloatVal (Finite 41 (- 1))) ''al@x.c'' ''S2''
     = Inr \<lparr>Student.name = ''Al'', age = 20, email = ''al@x.c'', studentid = ''S2'',
            courses = []\<rparr>"
proof -
  have "\<not> re_match pattern []" "\<not> re_match pattern ''al@x.c''"
    "re_match email_re ''al@x.c''"
    by code_simp+
  moreover have "blank '' ''"
    by (simp add: blank_def isspace_def)
  ultimately show ?thesis
    by (simp add: re_match_pattern [symmetric] Student_init_def Person_init_def
        float_lt_zero_def float_int_def)
qed

text \<open>
  The pattern of \<open>school_management.py\<close> ends in \<open>$\<close>, so an address followed by one newline
  is accepted and stored with the newline.
\<close>

lemma validate_email_final_newline:
  "validate_email (StrVal (''doe@x.com'' @ [newline]))"
proof -
  have "re_match pattern (''doe@x.com'' @ [newline])"
    by code_simp
  then show ?thesis
    by (simp add: validate_email_def)
qed

section \<open>Loading the graph from the store\<close>



lemma SM_Course_init_valid:
  "valid_courses_row r \<Longrightarrow>
   SM_Course_init (StrVal (courses_row.course_id r)) (StrVal (courses_row.course_name r)) inst
   = Inr \<lparr>SM_Course.course_id = courses_row.course_id r,
          course_name = courses_row.course_name r, instructor = inst,
          enrolled_students = []\<rparr>"
  by (simp add: valid_courses_row_def SM_Course_init_def str_of_def)


























section \<open>Writing the graph to the store\<close>



section \<open>Round trip\<close>






section \<open>Further properties of the store\<close>

text \<open>
  Without the closure conditions the write succeeds and the read drops the link: the
  registration of John Doe for a course that is not in the system is inserted, and the join
  with the courses table leaves it out of the graph that is loaded.
\<close>

lemma stray_registration_lost:
  "registration_pairs campus_stray = [(''S1'', ''C1'')]
   \<and> sync_system_to_db empty_database campus_stray
       = (True, \<lparr>students = [\<lparr>students_row.student_id = ''S1'', name = ''John Doe'', age = 20,
                                 email = ''doe@x.com''\<rparr>],
                 instructors = [], courses = [],
                 student_course_registrations =
                   [\<lparr>rowid = 1, student_id = ''S1'', course_id = ''C1''\<rparr>],
                 sqlite_sequence = 1\<rparr>)
   \<and> (case load_system_from_db (snd (sync_system_to_db empty_database campus_stray)) blank_campus of
        Inl e \<Rightarrow> False
      | Inr g' \<Rightarrow> student_rows g' = student_rows campus_stray \<and> registration_pairs g' = [])"
proof -
  have p: "registration_pairs campus_stray = [(''S1'', ''C1'')]"
    by (simp add: registration_pairs_def campus_stray_def blank_campus_def)
  have s: "sync_system_to_db empty_database campus_stray
       = (True, \<lparr>students = [\<lparr>students_row.student_id = ''S1'', name = ''John Doe'', age = 20,
                                 email = ''doe@x.com''\<rparr>],
                 instructors = [], courses = [],
                 student_course_registrations =
                   [\<lparr>rowid = 1, student_id = ''S1'', course_id = ''C1''\<rparr>],
                 sqlite_sequence = 1\<rparr>)"
    by (simp add: sync_system_to_db_def sync_body_def cursor_execute_def campus_stray_def blank_campus_def
        students_row_of_def empty_database_def foreign_keys_def selected_def int64_def Let_def)
  have v: "SM_Student_init (StrVal ''John Doe'') (IntVal 20) (StrVal ''doe@x.com'') (StrVal ''S1'')
      = Inr john_doe"
    by code_simp
  have l: "case load_system_from_db (snd (sync_system_to_db empty_database campus_stray))
        blank_campus of
        Inl e \<Rightarrow> False
      | Inr g' \<Rightarrow> student_rows g' = student_rows campus_stray \<and> registration_pairs g' = []"
    unfolding s
    by (simp add: load_system_from_db_def get_all_instructors_def get_all_courses_def
        get_all_students_def get_student_courses_def courses_left_join_def v john_doe_def
        new_student_def system_add_student_def blank_campus_def student_rows_def
        registration_pairs_def campus_stray_def students_row_of_def)
  from p s l show ?thesis by simp
qed

text \<open>
  The store refuses a second student with an id or an email already in the table, and a
  second registration of a pair, and is left as it was.
\<close>

lemma add_student_duplicate:
  "SM_Student.student_id s \<in> set (map students_row.student_id (students db))
   \<or> SM_Student.email s \<in> set (map students_row.email (students db))
   \<Longrightarrow> add_student db s = (False, db)"
  by (auto simp: add_student_def students_row_of_def)

lemma register_student_to_course_duplicate:
  "(sid, cid) \<in> set (map reg_key (student_course_registrations db))
   \<Longrightarrow> register_student_to_course db sid cid = (False, db)"
  by (auto simp: register_student_to_course_def reg_key_def image_iff)

text \<open>\<open>delete_course\<close> never changes the registrations table.\<close>

lemma delete_course_registrations:
  "student_course_registrations (snd (delete_course db cid)) = student_course_registrations db"
  by (simp add: delete_course_def foreign_keys_def Let_def)

section \<open>Reassignment in \<open>school_management.py\<close>\<close>

text \<open>
  \<open>Instructor.assign_course\<close> behaves like \<open>assign\<close>: after the course has gone from the first
  instructor to the second, the first instructor still lists it.
\<close>

lemma assign_course_keeps_old_link:
  "SM_Course.instructor (course_obj campus_reassigned 0) = Some 1
   \<and> assigned_courses (instructor_obj campus_reassigned 1) = [0]
   \<and> assigned_courses (instructor_obj campus_reassigned 0) = [0]"
  by (simp add: campus_reassigned_def blank_campus_def assign_course_def)

end
